theory Spec2Isabelle
  imports Main "HOL-Library.Word" "HOL-Library.Signed_Division" "HOL-Library.AList"
begin

section \<open>The store of a replicated SQLite file system (store.go)\<close>

text \<open>
  The theory embeds the store-level coordination code of store.go: the database map,
  subscriber fan-out, the primary flag with its channel, the lease renewal loop, retention
  enforcement and the ingest of LTX stream frames.  Go pointers to mutable objects become
  explicit state: the store is a record that every operation takes and returns, channels
  live in a heap of closed-flags, and the outcome of every call that leaves the process
  (the operating system, the lease backend, the LTX codec) is an input of the model, so
  that each error return of the source is a branch of its definition.  Logging, tracing
  and metrics are left out.
\<close>

subsection \<open>Basic types\<close>

type_synonym u64 = "64 word"

text \<open>\<^verbatim>\<open>time.Duration\<close> is a signed 64-bit count of nanoseconds; comparisons are the
  signed ones (\<open>\<le>s\<close>, \<open><s\<close>) and \<open>+\<close> wraps around.\<close>

type_synonym Duration = "64 word"

definition Second :: Duration where
  "Second = 1000000000"

text \<open>Go's \<^verbatim>\<open>/\<close> on signed integers truncates towards zero.\<close>

definition duration_div :: "Duration \<Rightarrow> Duration \<Rightarrow> Duration" where
  "duration_div a b = word_of_int (sint a sdiv sint b)"

text \<open>A channel is an address into the channel heap.\<close>

type_synonym chan = nat

text \<open>Modelled from the spec: the transactional position of a database (the type is
  declared outside store.go); the zero value means empty.\<close>

record Pos =
  TXID :: u64
  PostApplyChecksum :: u64

text \<open>The exported sentinels, errors returned by external calls (\<open>ExtErr\<close>), and the errors
  that store.go builds with \<^verbatim>\<open>fmt.Errorf\<close>: \<open>Errorf p e\<close> is \<^verbatim>\<open>fmt.Errorf("p: %w", e)\<close>;
  \<open>RetentionErr n e\<close> is \<^verbatim>\<open>fmt.Errorf("cannot enforce retention on db %q: %w", n, e)\<close>,
  where \<^verbatim>\<open>e\<close> may be nil; \<open>PositionMismatch n p q\<close> is
  \<^verbatim>\<open>fmt.Errorf("position mismatch on db %q: %s <> %s", n, p, q)\<close>.  \<open>Panic\<close> is a run-time
  panic.\<close>

datatype error =
    ErrStoreClosed
  | ErrNoPrimary
  | ErrPrimaryExists
  | ErrLeaseExpired
  | ErrDatabaseExists
  | ErrDatabaseNotFound
  | ExtErr string
  | Errorf string error
  | RetentionErr string "error option"
  | PositionMismatch string Pos Pos
  | Panic string

subsection \<open>LTX files and databases\<close>

text \<open>Modelled from the spec: the typed header of an LTX file (package ltx is not part of
  the sources).  The header carries \<open>MinTXID\<close>, \<open>MaxTXID\<close>, \<open>PreApplyChecksum\<close>, \<open>NodeID\<close> and
  \<open>IsSnapshot\<close>, the value that \<^verbatim>\<open>hdr.IsSnapshot()\<close> returns.\<close>

record Header =
  MinTXID :: u64
  MaxTXID :: u64
  PreApplyChecksum :: u64
  NodeID :: u64
  IsSnapshot :: bool

text \<open>Modelled from the spec: an LTX file as the decoder sees it, its header and the
  checksum of the database after the file has been applied.\<close>

record LTXFile =
  hdr :: Header
  postApplyChecksum :: u64

text \<open>An entry of the directory that holds the LTX files of a database: a subdirectory, or a
  file whose content is a complete LTX file (\<open>Some\<close>) or anything else (\<open>None\<close>: empty or
  partially written).  A directory is the list of its entries in the order
  \<^verbatim>\<open>os.ReadDir\<close> returns them.\<close>

datatype fsnode = Dir | File "LTXFile option"

type_synonym directory = "(string \<times> fsnode) list"

text \<open>Modelled from the spec: a remotely held HALT lock carries an id and an expiry time.\<close>

record HaltLock =
  ID :: u64
  ExpiresAt :: int

text \<open>Modelled from the spec: the per-database state (db.go is not part of the sources):
  name, current position, the remotely held HALT lock if any, and the LTX directory.\<close>

record DB =
  name :: string
  pos :: Pos
  remoteHaltLock :: "HaltLock option"
  ltxDir :: directory

subsection \<open>Subscribers\<close>

text \<open>\<open>notifyCh\<close> is a channel of capacity 1; its state is the number of buffered values.\<close>

record Subscriber =
  notifyCh :: nat
  dirtySet :: "string set"

definition newSubscriber :: Subscriber where
  "newSubscriber = \<lparr>notifyCh = 0, dirtySet = {}\<rparr>"

text \<open>\<^verbatim>\<open>Subscriber.MarkDirty\<close>: insert the name, then a non-blocking send (the \<^verbatim>\<open>default\<close>
  branch drops the value when the buffer is full).\<close>

definition MarkDirty :: "Subscriber \<Rightarrow> string \<Rightarrow> Subscriber" where
  "MarkDirty sub nm =
     (let sub1 = sub\<lparr>dirtySet := insert nm (dirtySet sub)\<rparr>
      in if notifyCh sub1 < 1 then sub1\<lparr>notifyCh := notifyCh sub1 + 1\<rparr> else sub1)"

text \<open>\<^verbatim>\<open>Subscriber.DirtySet\<close>: return the set and replace it by a fresh empty one.\<close>

definition DirtySet :: "Subscriber \<Rightarrow> string set \<times> Subscriber" where
  "DirtySet sub = (dirtySet sub, sub\<lparr>dirtySet := {}\<rparr>)"

subsection \<open>The store\<close>

text \<open>\<open>dbs\<close> is the map from names to databases, as an association list with one entry per
  name; its order stands for the order in which Go happens to iterate over the map.
  \<open>subscribers\<close> is the set of subscriber objects, each under its address.  \<open>chans\<close> is the
  channel heap: \<open>chans ! c\<close> holds when channel \<open>c\<close> has been closed.\<close>

record Store =
  store_id :: u64
  dbs :: "(string \<times> DB) list"
  subscribers :: "(nat \<times> Subscriber) list"
  isPrimary :: bool
  primaryCh :: chan
  candidate :: bool
  readyCh :: chan
  demoteCh :: chan
  chans :: "bool list"
  DemoteDelay :: Duration
  Retention :: Duration

definition Minute :: Duration where
  "Minute = 60 * Second"

definition DefaultDemoteDelay :: Duration where
  "DefaultDemoteDelay = 10 * Second"

definition DefaultRetention :: Duration where
  "DefaultRetention = 10 * Minute"

text \<open>\<^verbatim>\<open>NewStore\<close>: the primary channel is made and closed at once; the ready and demote
  channels are open.  The node id is assigned later by \<^verbatim>\<open>Open\<close>.  The path of the data
  directory and the settings that no operation below reads are not part of the record.\<close>

definition NewStore :: "bool \<Rightarrow> Store" where
  "NewStore cand =
     \<lparr>store_id = 0, dbs = [], subscribers = [], isPrimary = False, primaryCh = 0,
      candidate = cand, readyCh = 1, demoteCh = 2, chans = [True, False, False],
      DemoteDelay = DefaultDemoteDelay, Retention = DefaultRetention\<rparr>"

text \<open>\<^verbatim>\<open>Store.markDirty\<close>: mark the name on every subscriber.\<close>

definition markDirty :: "Store \<Rightarrow> string \<Rightarrow> Store" where
  "markDirty s nm = s\<lparr>subscribers := map (\<lambda>(a, sub). (a, MarkDirty sub nm)) (subscribers s)\<rparr>"

text \<open>\<^verbatim>\<open>Store.Subscribe\<close> allocates a subscriber at an unused address;
  \<^verbatim>\<open>Store.Unsubscribe\<close> removes it from the set.\<close>

definition Subscribe :: "Store \<Rightarrow> nat \<times> Store" where
  "Subscribe s =
     (let a = Suc (fold max (map fst (subscribers s)) 0)
      in (a, s\<lparr>subscribers := AList.update a newSubscriber (subscribers s)\<rparr>))"

definition Unsubscribe :: "Store \<Rightarrow> nat \<Rightarrow> Store" where
  "Unsubscribe s a = s\<lparr>subscribers := AList.delete a (subscribers s)\<rparr>"

subsection \<open>Creating and dropping databases\<close>

text \<open>Outcomes of the calls \<^verbatim>\<open>CreateDB\<close>, \<^verbatim>\<open>CreateDBIfNotExists\<close> and \<^verbatim>\<open>DropDB\<close>
  make outside the store: \<^verbatim>\<open>os.MkdirAll\<close>, \<^verbatim>\<open>os.OpenFile\<close> or \<^verbatim>\<open>os.WriteFile\<close>
  of the database file, \<^verbatim>\<open>db.Open\<close> (which yields the position and the LTX directory
  it finds on disk), and \<^verbatim>\<open>os.RemoveAll\<close>.\<close>

record DBEnv =
  mkdirAll :: "error option"
  createFile :: "error option"
  dbOpen :: "error + (Pos \<times> directory)"
  removeAll :: "error option"

definition NewDB :: "string \<Rightarrow> DB" where
  "NewDB nm = \<lparr>name = nm, pos = \<lparr>TXID = 0, PostApplyChecksum = 0\<rparr>,
               remoteHaltLock = None, ltxDir = []\<rparr>"

text \<open>Modelled from the spec: \<^verbatim>\<open>DB.Open\<close> (db.go is not part of the sources) recovers the
  position by scanning the LTX directory, or fails.\<close>

definition DB_Open :: "DBEnv \<Rightarrow> DB \<Rightarrow> error + DB" where
  "DB_Open env db =
     (case dbOpen env of
        Inl e \<Rightarrow> Inl e
      | Inr (p, d) \<Rightarrow> Inr (db\<lparr>pos := p, ltxDir := d\<rparr>))"

definition CreateDB :: "DBEnv \<Rightarrow> Store \<Rightarrow> string \<Rightarrow> (error + DB) \<times> Store" where
  "CreateDB env s nm =
     (if map_of (dbs s) nm \<noteq> None then (Inl ErrDatabaseExists, s)
      else case mkdirAll env of
        Some e \<Rightarrow> (Inl e, s)
      | None \<Rightarrow>
     (case createFile env of
        Some e \<Rightarrow> (Inl e, s)
      | None \<Rightarrow>
     (case DB_Open env (NewDB nm) of
        Inl e \<Rightarrow> (Inl e, s)
      | Inr db \<Rightarrow> (Inr db, markDirty (s\<lparr>dbs := AList.update nm db (dbs s)\<rparr>) nm))))"

definition CreateDBIfNotExists :: "DBEnv \<Rightarrow> Store \<Rightarrow> string \<Rightarrow> (error + DB) \<times> Store" where
  "CreateDBIfNotExists env s nm =
     (case map_of (dbs s) nm of
        Some db \<Rightarrow> (Inr db, s)
      | None \<Rightarrow>
     (case mkdirAll env of
        Some e \<Rightarrow> (Inl e, s)
      | None \<Rightarrow>
     (case createFile env of
        Some e \<Rightarrow> (Inl e, s)
      | None \<Rightarrow>
     (case DB_Open env (NewDB nm) of
        Inl e \<Rightarrow> (Inl e, s)
      | Inr db \<Rightarrow> (Inr db, markDirty (s\<lparr>dbs := AList.update nm db (dbs s)\<rparr>) nm)))))"

definition DropDB :: "DBEnv \<Rightarrow> Store \<Rightarrow> string \<Rightarrow> error option \<times> Store" where
  "DropDB env s nm =
     (case map_of (dbs s) nm of
        None \<Rightarrow> (Some ErrDatabaseNotFound, s)
      | Some db \<Rightarrow>
     (case removeAll env of
        Some e \<Rightarrow> (Some (Errorf ''remove db path'' e), s)
      | None \<Rightarrow> (None, markDirty (s\<lparr>dbs := AList.delete nm (dbs s)\<rparr>) nm)))"

subsection \<open>Channels and the primary flag\<close>

text \<open>\<^verbatim>\<open>make(chan struct{})\<close> allocates an open channel at the next address.
  \<^verbatim>\<open>close\<close> panics on a channel that is closed already and on one that was never made.
  Nothing is ever sent on these channels, so a receive is ready exactly when the channel is
  closed.\<close>

definition make_chan :: "bool list \<Rightarrow> chan \<times> bool list" where
  "make_chan h = (length h, h @ [False])"

definition is_closed :: "bool list \<Rightarrow> chan \<Rightarrow> bool" where
  "is_closed h c = (c < length h \<and> h ! c)"

definition close_chan :: "bool list \<Rightarrow> chan \<Rightarrow> error + bool list" where
  "close_chan h c =
     (if length h \<le> c then Inl (Panic ''close of nil channel'')
      else if h ! c then Inl (Panic ''close of closed channel'')
      else Inr (h[c := True]))"

text \<open>\<^verbatim>\<open>Store.setIsPrimary\<close>: a new channel when becoming primary, the current one closed
  when primary status is lost, nothing on the channel when the flag does not change.\<close>

definition setIsPrimary :: "Store \<Rightarrow> bool \<Rightarrow> error + Store" where
  "setIsPrimary s v =
     (if isPrimary s \<noteq> v then
        (if v then
           (case make_chan (chans s) of
              (c, h) \<Rightarrow> Inr (s\<lparr>isPrimary := v, primaryCh := c, chans := h\<rparr>))
         else
           (case close_chan (chans s) (primaryCh s) of
              Inl e \<Rightarrow> Inl e
            | Inr h \<Rightarrow> Inr (s\<lparr>isPrimary := v, chans := h\<rparr>)))
      else Inr (s\<lparr>isPrimary := v\<rparr>))"

text \<open>\<^verbatim>\<open>Store.markReady\<close>: close the ready channel unless it is closed already.\<close>

definition markReady :: "Store \<Rightarrow> error + Store" where
  "markReady s =
     (if is_closed (chans s) (readyCh s) then Inr s
      else case close_chan (chans s) (readyCh s) of
        Inl e \<Rightarrow> Inl e
      | Inr h \<Rightarrow> Inr (s\<lparr>chans := h\<rparr>))"

subsection \<open>The primary context\<close>

text \<open>A parent \<^verbatim>\<open>context.Context\<close> is a reference; \<open>parents p\<close> is what \<^verbatim>\<open>p.Err()\<close>
  returns at the moment of the call: \<open>None\<close> until \<open>p\<close> is cancelled, the cause afterwards,
  and \<^verbatim>\<open>p.Done()\<close> is closed exactly when it is not \<open>None\<close>.\<close>

type_synonym contexts = "nat \<Rightarrow> error option"

record primaryCtx =
  ctx_parent :: nat
  ctx_primaryCh :: chan
  ctx_done :: chan

text \<open>\<^verbatim>\<open>newPrimaryCtx\<close> makes the \<^verbatim>\<open>done\<close> channel and starts a goroutine, which is
  \<open>primaryCtx_watch\<close> below.\<close>

definition newPrimaryCtx :: "bool list \<Rightarrow> nat \<Rightarrow> chan \<Rightarrow> primaryCtx \<times> bool list" where
  "newPrimaryCtx h p c =
     (case make_chan h of
        (d, h1) \<Rightarrow> (\<lparr>ctx_parent = p, ctx_primaryCh = c, ctx_done = d\<rparr>, h1))"

text \<open>The goroutine of \<^verbatim>\<open>newPrimaryCtx\<close>: a \<^verbatim>\<open>select\<close> without default over the primary
  channel and the parent's \<^verbatim>\<open>Done()\<close>.  \<open>None\<close>: neither is ready and the goroutine stays
  blocked.  Otherwise it closes \<^verbatim>\<open>done\<close> and ends.\<close>

definition primaryCtx_watch :: "bool list \<Rightarrow> contexts \<Rightarrow> primaryCtx \<Rightarrow> (error + bool list) option" where
  "primaryCtx_watch h parents ctx =
     (if is_closed h (ctx_primaryCh ctx) then Some (close_chan h (ctx_done ctx))
      else if parents (ctx_parent ctx) \<noteq> None then Some (close_chan h (ctx_done ctx))
      else None)"

definition Done :: "primaryCtx \<Rightarrow> chan" where
  "Done ctx = ctx_done ctx"

text \<open>\<^verbatim>\<open>primaryCtx.Err\<close>: a \<^verbatim>\<open>select\<close> with default over the primary channel.\<close>

definition Err :: "bool list \<Rightarrow> contexts \<Rightarrow> primaryCtx \<Rightarrow> error option" where
  "Err h parents ctx =
     (if is_closed h (ctx_primaryCh ctx) then Some ErrLeaseExpired
      else parents (ctx_parent ctx))"

text \<open>\<^verbatim>\<open>Store.PrimaryCtx\<close>: a primary context over the store's current primary channel.\<close>

definition PrimaryCtx :: "Store \<Rightarrow> nat \<Rightarrow> primaryCtx \<times> Store" where
  "PrimaryCtx s p =
     (case newPrimaryCtx (chans s) p (primaryCh s) of
        (ctx, h) \<Rightarrow> (ctx, s\<lparr>chans := h\<rparr>))"

subsection \<open>Monitoring the lease as primary\<close>

text \<open>The lease is an interface of the lease backend; \<open>TTL\<close> is what \<^verbatim>\<open>lease.TTL()\<close>
  returns and \<open>closeErr\<close> what \<^verbatim>\<open>lease.Close()\<close> returns.\<close>

record Lease =
  TTL :: Duration
  closeErr :: "error option"

text \<open>What one round of the \<^verbatim>\<open>select\<close> in the renewal loop receives: the timer fired
  (with the result of \<^verbatim>\<open>lease.Renew\<close> and the value of
  \<^verbatim>\<open>time.Since(lease.RenewedAt())\<close> read after it), the demote channel was closed, or
  the context was cancelled.\<close>

datatype event = TimerFired "error option" Duration | DemoteSignal | CtxDone

text \<open>The waits the function performs: \<^verbatim>\<open>time.After(d)\<close> that fired, \<^verbatim>\<open>time.Sleep(d)\<close>,
  and \<^verbatim>\<open>sleepWithContext(ctx, d)\<close>.\<close>

datatype wait = After Duration | Sleep Duration | SleepWithContext Duration

definition timeout :: Duration where
  "timeout = 1 * Second"

text \<open>The outcome of one round: go round again with a new \<^verbatim>\<open>waitDur\<close>, or return.\<close>

datatype round = Continue Duration | Return "error option" bool

text \<open>The body of the \<^verbatim>\<open>for\<close> loop: the outcome of the round and the waits it performed.
  The flag of \<open>Return\<close> is the variable \<^verbatim>\<open>demoted\<close>.\<close>

fun renewRound :: "Lease \<Rightarrow> Duration \<Rightarrow> event \<Rightarrow> round \<times> wait list" where
  "renewRound lease waitDur (TimerFired r since) =
     (case r of
        Some e \<Rightarrow>
          if e = ErrLeaseExpired then (Return (Some e) False, [After waitDur])
          else if TTL lease <s since + timeout
            then (Return (Some ErrLeaseExpired) False, [After waitDur, Sleep timeout])
          else (Continue Second, [After waitDur])
      | None \<Rightarrow> (Continue (duration_div (TTL lease) 2), [After waitDur]))"
| "renewRound lease waitDur DemoteSignal = (Return None True, [])"
| "renewRound lease waitDur CtxDone = (Return None False, [])"

text \<open>The loop over the events that arrive.  The first component is \<open>None\<close> when the events
  run out while the loop is still going round.\<close>

fun renewLoop :: "Lease \<Rightarrow> Duration \<Rightarrow> event list \<Rightarrow> (error option \<times> bool) option \<times> wait list" where
  "renewLoop lease waitDur [] = (None, [])"
| "renewLoop lease waitDur (ev # evs) =
     (case renewRound lease waitDur ev of
        (Return err dem, ws) \<Rightarrow> (Some (err, dem), ws)
      | (Continue waitDur1, ws) \<Rightarrow>
          (case renewLoop lease waitDur1 evs of (res, ws1) \<Rightarrow> (res, ws @ ws1)))"

text \<open>\<^verbatim>\<open>Store.monitorLeaseAsPrimary\<close>.  The deferred calls run in reverse order once the
  loop returns: first \<^verbatim>\<open>setIsPrimary(false)\<close>, then \<^verbatim>\<open>lease.Close()\<close> (its error is only
  logged) and, after a manual demotion, the pause of \<^verbatim>\<open>DemoteDelay\<close>, which
  \<^verbatim>\<open>sleepWithContext\<close> skips when the context is cancelled already (\<open>cancelled\<close>).
  The result is \<open>None\<close> while the loop is still running; a panic is \<open>Inl\<close>.\<close>

definition monitorLeaseAsPrimary ::
  "Store \<Rightarrow> Lease \<Rightarrow> bool \<Rightarrow> event list \<Rightarrow> error + ((error option) option \<times> Store \<times> wait list)" where
  "monitorLeaseAsPrimary s lease cancelled evs =
     (case setIsPrimary s True of
        Inl e \<Rightarrow> Inl e
      | Inr s1 \<Rightarrow>
     (case markReady s1 of
        Inl e \<Rightarrow> Inl e
      | Inr s2 \<Rightarrow>
     (case renewLoop lease (duration_div (TTL lease) 2) evs of
        (None, ws) \<Rightarrow> Inr (None, s2, ws)
      | (Some (err, dem), ws) \<Rightarrow>
     (case setIsPrimary s2 False of
        Inl e \<Rightarrow> Inl e
      | Inr s3 \<Rightarrow>
          Inr (Some err, s3,
               ws @ (if dem \<and> \<not> cancelled then [SleepWithContext (DemoteDelay s3)] else []))))))"

subsection \<open>Retention\<close>

text \<open>The loop of \<^verbatim>\<open>Store.EnforceRetention\<close> over the databases.  \<open>retain db minTime\<close> is
  the per-database \<^verbatim>\<open>db.EnforceRetention(ctx, minTime)\<close> (db.go is not part of the
  sources): its error and the database afterwards.  The loop carries the variable
  \<^verbatim>\<open>err\<close> and returns it with the databases and the names of those it has called
  \<open>retain\<close> on, in order.\<close>

fun retentionLoop ::
  "(DB \<Rightarrow> int \<Rightarrow> error option \<times> DB) \<Rightarrow> int \<Rightarrow> (string \<times> DB) list \<Rightarrow> error option
     \<Rightarrow> error option \<times> (string \<times> DB) list \<times> string list" where
  "retentionLoop retain minTime [] err = (err, [], [])"
| "retentionLoop retain minTime ((nm, db) # rest) err =
     (case retain db minTime of
        (e, db1) \<Rightarrow>
          (case retentionLoop retain minTime rest
                  (if err = None then Some (RetentionErr (name db) e) else err) of
             (err1, rest1, called) \<Rightarrow> (err1, (nm, db1) # rest1, name db # called)))"

text \<open>\<^verbatim>\<open>Store.EnforceRetention\<close> at wall-clock time \<open>now\<close> (nanoseconds).  The function ends
  with \<^verbatim>\<open>return nil\<close>.\<close>

definition EnforceRetention ::
  "(DB \<Rightarrow> int \<Rightarrow> error option \<times> DB) \<Rightarrow> int \<Rightarrow> Store \<Rightarrow> error option \<times> Store \<times> string list" where
  "EnforceRetention retain now s =
     (if Retention s \<le>s 0 then (None, s, [])
      else
        (let minTime = now + sint (- Retention s)
         in case retentionLoop retain minTime (dbs s) None of
              (err, dbs1, called) \<Rightarrow> (None, s\<lparr>dbs := dbs1\<rparr>, called)))"

subsection \<open>File names and directories\<close>

text \<open>Modelled from the spec: LTX files are named by \<open>MinTXID\<close> and \<open>MaxTXID\<close> in lowercase
  hex, each padded with zeros to 16 digits (\<^verbatim>\<open>db.LTXPath\<close> and package ltx are not part
  of the sources).  Only the file name within the LTX directory is modelled, which is what
  \<^verbatim>\<open>filepath.Split\<close> hands to \<^verbatim>\<open>removeFilesExcept\<close>.\<close>

definition hexdigit :: "nat \<Rightarrow> char" where
  "hexdigit n = ''0123456789abcdef'' ! (n mod 16)"

fun hex :: "nat \<Rightarrow> nat \<Rightarrow> string" where
  "hex 0 n = []"
| "hex (Suc k) n = hex k (n div 16) @ [hexdigit n]"

definition FormatTXID :: "u64 \<Rightarrow> string" where
  "FormatTXID x = hex 16 (unat x)"

definition LTXPath :: "u64 \<Rightarrow> u64 \<Rightarrow> string" where
  "LTXPath minTXID maxTXID = FormatTXID minTXID @ ''-'' @ FormatTXID maxTXID @ ''.ltx''"

text \<open>\<^verbatim>\<open>%d\<close> of a non-negative integer.\<close>

fun decimal :: "nat \<Rightarrow> string" where
  "decimal n =
     (if n < 10 then [''0123456789'' ! n]
      else decimal (n div 10) @ [''0123456789'' ! (n mod 10)])"

declare decimal.simps [simp del]

definition dirRemove :: "string \<Rightarrow> directory \<Rightarrow> directory" where
  "dirRemove nm d = filter (\<lambda>ent. fst ent \<noteq> nm) d"

definition dirPut :: "string \<Rightarrow> fsnode \<Rightarrow> directory \<Rightarrow> directory" where
  "dirPut nm k d =
     (if map_of d nm = None then d @ [(nm, k)]
      else map (\<lambda>ent. if fst ent = nm then (nm, k) else ent) d)"

definition dirRename :: "string \<Rightarrow> string \<Rightarrow> directory \<Rightarrow> directory" where
  "dirRename old new d =
     (case map_of d old of
        None \<Rightarrow> d
      | Some k \<Rightarrow> dirPut new k (dirRemove old d))"

subsection \<open>Ingest of an LTX stream frame\<close>

text \<open>Outcomes of the calls \<^verbatim>\<open>processLTXStreamFrame\<close> makes outside the store, in the
  order of the source: creating the database, \<^verbatim>\<open>ltx.DecodeHeader\<close> on the frame's body
  (the decoded file, or an error), \<^verbatim>\<open>db.AcquireWriteLock\<close>, \<^verbatim>\<open>dec.Verify\<close>,
  \<^verbatim>\<open>io.Copy(io.Discard, src)\<close>, \<^verbatim>\<open>db.UnsetRemoteHaltLock\<close>, \<^verbatim>\<open>rand.Int\<close>,
  \<^verbatim>\<open>os.Create\<close>, \<^verbatim>\<open>io.Copy(f, src)\<close>, \<^verbatim>\<open>f.Sync\<close>, \<^verbatim>\<open>os.Rename\<close>,
  \<^verbatim>\<open>internal.Sync\<close> of the directory, \<^verbatim>\<open>os.ReadDir\<close>, \<^verbatim>\<open>os.Remove\<close> of a name,
  and \<^verbatim>\<open>db.ApplyLTXNoLock\<close>.\<close>

record LTXEnv =
  dbEnv :: DBEnv
  decodeHeader :: "error + LTXFile"
  acquireWriteLock :: "error option"
  verify :: "error option"
  discard :: "error option"
  unsetHalt :: "error option"
  randInt :: nat
  osCreate :: "error option"
  ioCopy :: "error option"
  fsync :: "error option"
  osRename :: "error option"
  syncDir :: "error option"
  readDir :: "error option"
  osRemoveErr :: "string \<Rightarrow> error option"
  applyLTX :: "error option"

text \<open>\<^verbatim>\<open>os.Remove\<close> of a name in a directory.\<close>

definition osRemove :: "LTXEnv \<Rightarrow> directory \<Rightarrow> string \<Rightarrow> error option \<times> directory" where
  "osRemove env d nm =
     (case map_of d nm of
        None \<Rightarrow> (Some (ExtErr ''no such file or directory''), d)
      | Some k \<Rightarrow>
     (case osRemoveErr env nm of
        Some e \<Rightarrow> (Some e, d)
      | None \<Rightarrow> (None, dirRemove nm d)))"

text \<open>The loop of \<^verbatim>\<open>removeFilesExcept\<close> over the entries read, with the directory as it
  is now and the variable \<^verbatim>\<open>retErr\<close>.\<close>

fun removeLoop ::
  "LTXEnv \<Rightarrow> directory \<Rightarrow> string \<Rightarrow> directory \<Rightarrow> error option \<Rightarrow> error option \<times> directory" where
  "removeLoop env [] filename d retErr = (retErr, d)"
| "removeLoop env ((nm, k) # ents) filename d retErr =
     (if k = Dir \<or> nm = filename then removeLoop env ents filename d retErr
      else case osRemove env d nm of
        (err, d1) \<Rightarrow> removeLoop env ents filename d1 (if retErr = None then err else retErr))"

definition removeFilesExcept :: "LTXEnv \<Rightarrow> directory \<Rightarrow> string \<Rightarrow> error option \<times> directory" where
  "removeFilesExcept env d filename =
     (case readDir env of
        Some e \<Rightarrow> (Some e, d)
      | None \<Rightarrow> removeLoop env d filename d None)"

definition RemoteHaltLock :: "DB \<Rightarrow> HaltLock option" where
  "RemoteHaltLock db = remoteHaltLock db"

text \<open>Modelled from the spec: \<^verbatim>\<open>DB.UnsetRemoteHaltLock\<close> (db.go is not part of the sources)
  clears the remotely held HALT lock with the given id, or fails.\<close>

definition UnsetRemoteHaltLock :: "LTXEnv \<Rightarrow> DB \<Rightarrow> u64 \<Rightarrow> error option \<times> DB" where
  "UnsetRemoteHaltLock env db lockID =
     (case unsetHalt env of
        Some e \<Rightarrow> (Some e, db)
      | None \<Rightarrow>
          (None, case remoteHaltLock db of
                   None \<Rightarrow> db
                 | Some l \<Rightarrow> if ID l = lockID then db\<lparr>remoteHaltLock := None\<rparr> else db))"

text \<open>Modelled from the spec: \<^verbatim>\<open>DB.ApplyLTXNoLock\<close> (db.go is not part of the sources)
  applies the file persisted at the path and updates the position: after the apply,
  \<open>pos.TXID\<close> is the file's \<open>MaxTXID\<close> and \<open>pos.PostApplyChecksum\<close> its post-apply checksum.
  It fails when there is no complete LTX file at the path.\<close>

definition ApplyLTXNoLock :: "LTXEnv \<Rightarrow> DB \<Rightarrow> string \<Rightarrow> error option \<times> DB" where
  "ApplyLTXNoLock env db path =
     (case map_of (ltxDir db) path of
        Some (File (Some f)) \<Rightarrow>
          (case applyLTX env of
             Some e \<Rightarrow> (Some e, db)
           | None \<Rightarrow>
               (None, db\<lparr>pos := \<lparr>TXID = MaxTXID (hdr f),
                                 PostApplyChecksum = postApplyChecksum f\<rparr>\<rparr>))
      | _ \<Rightarrow> (Some (ExtErr ''open ltx file''), db))"

text \<open>The part of \<^verbatim>\<open>processLTXStreamFrame\<close> between the registration of the deferred
  \<^verbatim>\<open>os.Remove(tmpPath)\<close> and the return: create the temporary file, copy the stream
  into it, sync, rename to the canonical path, sync the directory, remove the other files
  after a snapshot, apply.\<close>

definition writeLTX :: "LTXEnv \<Rightarrow> DB \<Rightarrow> LTXFile \<Rightarrow> string \<Rightarrow> string \<Rightarrow> error option \<times> DB" where
  "writeLTX env db f path tmpPath =
     (case osCreate env of
        Some e \<Rightarrow> (Some (Errorf ''cannot create temp ltx file'' e), db)
      | None \<Rightarrow>
     (let d1 = dirPut tmpPath (File None) (ltxDir db) in
      case ioCopy env of
        Some e \<Rightarrow> (Some (Errorf ''write ltx file'' e), db\<lparr>ltxDir := d1\<rparr>)
      | None \<Rightarrow>
     (let d2 = dirPut tmpPath (File (Some f)) d1 in
      case fsync env of
        Some e \<Rightarrow> (Some (Errorf ''fsync ltx file'' e), db\<lparr>ltxDir := d2\<rparr>)
      | None \<Rightarrow>
     (case osRename env of
        Some e \<Rightarrow> (Some (Errorf ''rename ltx file'' e), db\<lparr>ltxDir := d2\<rparr>)
      | None \<Rightarrow>
     (let d3 = dirRename tmpPath path d2 in
      case syncDir env of
        Some e \<Rightarrow> (Some (Errorf ''sync ltx dir'' e), db\<lparr>ltxDir := d3\<rparr>)
      | None \<Rightarrow>
     (case (if IsSnapshot (hdr f) then removeFilesExcept env d3 path else (None, d3)) of
        (Some e, d4) \<Rightarrow> (Some (Errorf ''remove ltx after snapshot'' e), db\<lparr>ltxDir := d4\<rparr>)
      | (None, d4) \<Rightarrow>
     (case ApplyLTXNoLock env (db\<lparr>ltxDir := d4\<rparr>) path of
        (Some e, db5) \<Rightarrow> (Some (Errorf ''apply ltx'' e), db5)
      | (None, db5) \<Rightarrow> (None, db5))))))))"

text \<open>The temporary name, the part above, and then the deferred \<^verbatim>\<open>os.Remove(tmpPath)\<close>,
  whose error is dropped.\<close>

definition installLTX :: "LTXEnv \<Rightarrow> DB \<Rightarrow> LTXFile \<Rightarrow> error option \<times> DB" where
  "installLTX env db f =
     (let path = LTXPath (MinTXID (hdr f)) (MaxTXID (hdr f));
          tmpPath = path @ ''.'' @ decimal (randInt env) @ ''.tmp''
      in case writeLTX env db f path tmpPath of
           (err, db1) \<Rightarrow> (err, db1\<lparr>ltxDir := snd (osRemove env (ltxDir db1) tmpPath)\<rparr>))"

definition expectedPos :: "Header \<Rightarrow> Pos" where
  "expectedPos h = \<lparr>TXID = MinTXID h - 1, PostApplyChecksum = PreApplyChecksum h\<rparr>"

text \<open>\<^verbatim>\<open>Store.processLTXStreamFrame\<close> for a frame with the given database name.  The
  database is an object the store's map points to, so what the function does to it is
  written back under the frame's name.\<close>

definition processLTXStreamFrame :: "LTXEnv \<Rightarrow> Store \<Rightarrow> string \<Rightarrow> error option \<times> Store" where
  "processLTXStreamFrame env s frameName =
     (case CreateDBIfNotExists (dbEnv env) s frameName of
        (Inl e, s1) \<Rightarrow> (Some (Errorf ''create database'' e), s1)
      | (Inr db, s1) \<Rightarrow>
     (case decodeHeader env of
        Inl e \<Rightarrow> (Some (Errorf ''peek ltx header'' e), s1)
      | Inr f \<Rightarrow>
     (case acquireWriteLock env of
        Some e \<Rightarrow> (Some e, s1)
      | None \<Rightarrow>
     (if NodeID (hdr f) = store_id s1 then
        (case verify env of
           Some e \<Rightarrow> (Some (Errorf ''verify duplicate ltx file'' e), s1)
         | None \<Rightarrow>
        (case discard env of
           Some e \<Rightarrow> (Some (Errorf ''discard ltx body'' e), s1)
         | None \<Rightarrow> (None, s1)))
      else
        (case (case RemoteHaltLock db of
                 None \<Rightarrow> (None, db)
               | Some haltLock \<Rightarrow> UnsetRemoteHaltLock env db (ID haltLock)) of
           (Some e, db1) \<Rightarrow>
             (Some (Errorf ''release remote halt lock'' e),
              s1\<lparr>dbs := AList.update frameName db1 (dbs s1)\<rparr>)
         | (None, db1) \<Rightarrow>
        (if \<not> IsSnapshot (hdr f) \<and> pos db1 \<noteq> expectedPos (hdr f) then
           (Some (PositionMismatch (name db1) (pos db1) (expectedPos (hdr f))),
            s1\<lparr>dbs := AList.update frameName db1 (dbs s1)\<rparr>)
         else
           (case installLTX env db1 f of
              (err, db2) \<Rightarrow> (err, s1\<lparr>dbs := AList.update frameName db2 (dbs s1)\<rparr>))))))))"

subsection \<open>Sample states\<close>

text \<open>A replica with node id 7 and one database at position \<open>(5, 0xAA)\<close> that holds the LTX
  files of the ranges 1-1, 2-3 and 4-5 and a remotely held HALT lock; an environment in
  which every external call succeeds and the stream carries the snapshot
  \<open>MinTXID = 1, MaxTXID = 10, PostApplyChecksum = 0xBEEF\<close> written by node 9.\<close>

definition sample_dbEnv :: DBEnv where
  "sample_dbEnv = \<lparr>mkdirAll = None, createFile = None,
     dbOpen = Inr (\<lparr>TXID = 0, PostApplyChecksum = 0\<rparr>, []), removeAll = None\<rparr>"

definition sample_file :: "u64 \<Rightarrow> u64 \<Rightarrow> u64 \<Rightarrow> u64 \<Rightarrow> bool \<Rightarrow> LTXFile" where
  "sample_file lo hi pre post snap =
     \<lparr>hdr = \<lparr>MinTXID = lo, MaxTXID = hi, PreApplyChecksum = pre, NodeID = 9, IsSnapshot = snap\<rparr>,
      postApplyChecksum = post\<rparr>"

definition sample_db :: DB where
  "sample_db = \<lparr>name = ''db'', pos = \<lparr>TXID = 5, PostApplyChecksum = 0xAA\<rparr>,
     remoteHaltLock = Some \<lparr>ID = 3, ExpiresAt = 100\<rparr>,
     ltxDir = [(LTXPath 1 1, File (Some (sample_file 1 1 0 0xA1 True))),
               (LTXPath 2 3, File (Some (sample_file 2 3 0xA1 0xA3 False))),
               (LTXPath 4 5, File (Some (sample_file 4 5 0xA3 0xAA False)))]\<rparr>"

definition sample_store :: Store where
  "sample_store = (NewStore True)\<lparr>store_id := 7, dbs := [(''db'', sample_db)],
     subscribers := [(1, newSubscriber)]\<rparr>"

definition sample_env :: LTXEnv where
  "sample_env = \<lparr>dbEnv = sample_dbEnv, decodeHeader = Inr (sample_file 1 10 0 0xBEEF True),
     acquireWriteLock = None, verify = None, discard = None, unsetHalt = None, randInt = 42,
     osCreate = None, ioCopy = None, fsync = None, osRename = None, syncDir = None,
     readDir = None, osRemoveErr = (\<lambda>nm. None), applyLTX = None\<rparr>"

text \<open>Two databases and a per-database retention that fails on the first of them.\<close>

definition sample_store2 :: Store where
  "sample_store2 = (NewStore True)\<lparr>store_id := 7, dbs := [(''a'', NewDB ''a''), (''b'', NewDB ''b'')]\<rparr>"

definition sample_retain :: "DB \<Rightarrow> int \<Rightarrow> error option \<times> DB" where
  "sample_retain db minTime =
     (if name db = ''a'' then (Some (ExtErr ''permission denied''), db) else (None, db))"

subsection \<open>An invariant of the primary flag\<close>

text \<open>The primary channel is allocated, and it is open exactly while the store is primary.\<close>

definition primary_inv :: "Store \<Rightarrow> bool" where
  "primary_inv s \<longleftrightarrow> primaryCh s < length (chans s) \<and> (isPrimary s \<longleftrightarrow> \<not> chans s ! primaryCh s)"

subsection \<open>The life of a node that is not primary\<close>

text \<open>The operations of the store above other than \<^verbatim>\<open>setIsPrimary(true)\<close>, which only
  \<^verbatim>\<open>monitorLeaseAsPrimary\<close> calls once a lease has been acquired.  A node that has never
  become primary has run some sequence of them on the store that \<^verbatim>\<open>NewStore\<close> returned.
  A panic ends the run.\<close>

datatype store_op =
    DoMarkReady
  | DoMarkDirty string
  | DoSubscribe
  | DoUnsubscribe nat
  | DoCreateDB DBEnv string
  | DoCreateDBIfNotExists DBEnv string
  | DoDropDB DBEnv string
  | DoPrimaryCtx nat
  | DoSetIsPrimaryFalse
  | DoEnforceRetention "DB \<Rightarrow> int \<Rightarrow> error option \<times> DB" int
  | DoProcessLTXStreamFrame LTXEnv string

fun store_step :: "Store \<Rightarrow> store_op \<Rightarrow> error + Store" where
  "store_step s DoMarkReady = markReady s"
| "store_step s (DoMarkDirty nm) = Inr (markDirty s nm)"
| "store_step s DoSubscribe = Inr (snd (Subscribe s))"
| "store_step s (DoUnsubscribe a) = Inr (Unsubscribe s a)"
| "store_step s (DoCreateDB env nm) = Inr (snd (CreateDB env s nm))"
| "store_step s (DoCreateDBIfNotExists env nm) = Inr (snd (CreateDBIfNotExists env s nm))"
| "store_step s (DoDropDB env nm) = Inr (snd (DropDB env s nm))"
| "store_step s (DoPrimaryCtx p) = Inr (snd (PrimaryCtx s p))"
| "store_step s DoSetIsPrimaryFalse = setIsPrimary s False"
| "store_step s (DoEnforceRetention retain now) = Inr (fst (snd (EnforceRetention retain now s)))"
| "store_step s (DoProcessLTXStreamFrame env nm) = Inr (snd (processLTXStreamFrame env s nm))"

fun store_run :: "Store \<Rightarrow> store_op list \<Rightarrow> error + Store" where
  "store_run s [] = Inr s"
| "store_run s (x # xs) =
     (case store_step s x of
        Inl e \<Rightarrow> Inl e
      | Inr s1 \<Rightarrow> store_run s1 xs)"

section \<open>Properties\<close>

subsection \<open>Creating and dropping databases\<close>

text \<open>C6. \<^verbatim>\<open>CreateDB\<close> of a name that is in the database map returns
  \<open>ErrDatabaseExists\<close> and leaves the store, and so the map, as it was; \<^verbatim>\<open>DropDB\<close> of a
  name that is not in the map returns \<open>ErrDatabaseNotFound\<close> and leaves the store as it
  was.\<close>

theorem CreateDB_DropDB_sentinels:
  "(map_of (dbs s) nm \<noteq> None \<longrightarrow> CreateDB env s nm = (Inl ErrDatabaseExists, s)) \<and>
   (map_of (dbs s) nm' = None \<longrightarrow> DropDB env s nm' = (Some ErrDatabaseNotFound, s))"
  by (simp add: CreateDB_def DropDB_def)

theorem CreateDB_DropDB_sentinels_witness:
  "map_of (dbs sample_store) ''db'' \<noteq> None \<and>
   CreateDB sample_dbEnv sample_store ''db'' = (Inl ErrDatabaseExists, sample_store) \<and>
   map_of (dbs sample_store) ''other'' = None \<and>
   DropDB sample_dbEnv sample_store ''other'' = (Some ErrDatabaseNotFound, sample_store)"
  using CreateDB_DropDB_sentinels [of sample_store "''db''" sample_dbEnv "''other''"]
  by (simp add: sample_store_def)

subsection \<open>Subscribers\<close>

lemma dirtySet_foldl_MarkDirty:
  "dirtySet (foldl MarkDirty sub names) = dirtySet sub \<union> set names"
  by (induction names arbitrary: sub) (auto simp: MarkDirty_def Let_def)

lemma notifyCh_MarkDirty: "notifyCh sub \<le> 1 \<Longrightarrow> notifyCh (MarkDirty sub nm) = 1"
  by (auto simp: MarkDirty_def Let_def)

text \<open>C9. \<^verbatim>\<open>Store.markDirty\<close> marks the name on every subscriber of the store: the name
  is inserted into the subscriber's dirty set, and the notify channel, of capacity one,
  holds one value afterwards whether it was empty or full.  After any sequence of
  \<^verbatim>\<open>MarkDirty\<close> calls on a new subscriber, or on one that has just been drained,
  \<^verbatim>\<open>DirtySet\<close> returns exactly the set of the marked names, and a \<^verbatim>\<open>DirtySet\<close> right
  after a \<^verbatim>\<open>DirtySet\<close> returns the empty set.\<close>

theorem markDirty_DirtySet:
  "(\<forall>(a, sub) \<in> set (subscribers s).
      (a, MarkDirty sub nm) \<in> set (subscribers (markDirty s nm)) \<and>
      dirtySet (MarkDirty sub nm) = insert nm (dirtySet sub) \<and>
      (notifyCh sub \<le> 1 \<longrightarrow> notifyCh (MarkDirty sub nm) = 1)) \<and>
   length (subscribers (markDirty s nm)) = length (subscribers s) \<and>
   fst (DirtySet (foldl MarkDirty newSubscriber names)) = set names \<and>
   fst (DirtySet (foldl MarkDirty (snd (DirtySet sub0)) names)) = set names \<and>
   fst (DirtySet (snd (DirtySet (foldl MarkDirty sub0 names)))) = {}"
proof -
  have "\<forall>(a, sub) \<in> set (subscribers s). (a, MarkDirty sub nm) \<in> set (subscribers (markDirty s nm))"
    by (force simp: markDirty_def)
  moreover have "dirtySet (MarkDirty sub nm) = insert nm (dirtySet sub)" for sub
    by (simp add: MarkDirty_def Let_def)
  moreover have "fst (DirtySet (foldl MarkDirty newSubscriber names)) = set names"
    by (simp add: DirtySet_def dirtySet_foldl_MarkDirty newSubscriber_def)
  moreover have "fst (DirtySet (foldl MarkDirty (snd (DirtySet sub0)) names)) = set names"
    by (simp add: DirtySet_def dirtySet_foldl_MarkDirty)
  moreover have "fst (DirtySet (snd (DirtySet (foldl MarkDirty sub0 names)))) = {}"
    by (simp add: DirtySet_def)
  moreover have "length (subscribers (markDirty s nm)) = length (subscribers s)"
    by (simp add: markDirty_def)
  ultimately show ?thesis
    using notifyCh_MarkDirty by auto
qed

theorem markDirty_DirtySet_witness:
  "(1, newSubscriber) \<in> set (subscribers sample_store) \<and>
   notifyCh newSubscriber \<le> 1 \<and>
   (1, MarkDirty newSubscriber ''db'') \<in> set (subscribers (markDirty sample_store ''db'')) \<and>
   dirtySet (MarkDirty newSubscriber ''db'') = {''db''} \<and>
   notifyCh (MarkDirty newSubscriber ''db'') = 1 \<and>
   fst (DirtySet (foldl MarkDirty newSubscriber [''db'', ''db'', ''x''])) = {''db'', ''x''} \<and>
   fst (DirtySet (snd (DirtySet (foldl MarkDirty newSubscriber [''db'', ''db'', ''x''])))) = {}"
  using markDirty_DirtySet [of sample_store "''db''" "[''db'', ''db'', ''x'']" newSubscriber]
  by (auto simp: sample_store_def newSubscriber_def)

subsection \<open>The primary context\<close>



subsection \<open>The primary channel\<close>

lemma markDirty_flag:
  "primaryCh (markDirty s nm) = primaryCh s \<and> chans (markDirty s nm) = chans s \<and>
   isPrimary (markDirty s nm) = isPrimary s"
  by (simp add: markDirty_def)

lemma processLTXStreamFrame_flag:
  "primaryCh (snd (processLTXStreamFrame env s nm)) = primaryCh s \<and>
   chans (snd (processLTXStreamFrame env s nm)) = chans s \<and>
   isPrimary (snd (processLTXStreamFrame env s nm)) = isPrimary s"
  apply (cases "CreateDBIfNotExists (dbEnv env) s nm")
  apply (auto simp: processLTXStreamFrame_def CreateDBIfNotExists_def markDirty_flag
      split: option.splits sum.splits prod.splits if_splits)
  done

lemma CreateDB_flag:
  "primaryCh (snd (CreateDB env s nm)) = primaryCh s \<and>
   chans (snd (CreateDB env s nm)) = chans s \<and>
   isPrimary (snd (CreateDB env s nm)) = isPrimary s"
  by (simp add: CreateDB_def markDirty_flag split: option.splits sum.splits)

lemma CreateDBIfNotExists_flag:
  "primaryCh (snd (CreateDBIfNotExists env s nm)) = primaryCh s \<and>
   chans (snd (CreateDBIfNotExists env s nm)) = chans s \<and>
   isPrimary (snd (CreateDBIfNotExists env s nm)) = isPrimary s"
  by (simp add: CreateDBIfNotExists_def markDirty_flag split: option.splits sum.splits)

lemma DropDB_flag:
  "primaryCh (snd (DropDB env s nm)) = primaryCh s \<and>
   chans (snd (DropDB env s nm)) = chans s \<and>
   isPrimary (snd (DropDB env s nm)) = isPrimary s"
  by (simp add: DropDB_def markDirty_flag split: option.splits)

lemma EnforceRetention_flag:
  "primaryCh (fst (snd (EnforceRetention retain now s))) = primaryCh s \<and>
   chans (fst (snd (EnforceRetention retain now s))) = chans s \<and>
   isPrimary (fst (snd (EnforceRetention retain now s))) = isPrimary s"
  by (simp add: EnforceRetention_def Let_def split: prod.splits)

lemma store_step_not_primary:
  assumes "primary_inv s" and "\<not> isPrimary s" and "store_step s x = Inr s1"
  shows "primary_inv s1 \<and> \<not> isPrimary s1"
proof (cases x)
  case DoMarkReady
  with assms show ?thesis
    by (auto simp: primary_inv_def markReady_def close_chan_def nth_list_update
        split: if_splits)
next
  case (DoMarkDirty nm)
  with assms show ?thesis
    by (auto simp: primary_inv_def markDirty_flag)
next
  case DoSubscribe
  with assms show ?thesis
    by (auto simp: primary_inv_def Subscribe_def Let_def)
next
  case (DoUnsubscribe a)
  with assms show ?thesis
    by (auto simp: primary_inv_def Unsubscribe_def)
next
  case (DoCreateDB env nm)
  with assms CreateDB_flag [of env s nm] show ?thesis
    by (auto simp: primary_inv_def)
next
  case (DoCreateDBIfNotExists env nm)
  with assms CreateDBIfNotExists_flag [of env s nm] show ?thesis
    by (auto simp: primary_inv_def)
next
  case (DoDropDB env nm)
  with assms DropDB_flag [of env s nm] show ?thesis
    by (auto simp: primary_inv_def)
next
  case (DoPrimaryCtx p)
  with assms show ?thesis
    by (auto simp: primary_inv_def PrimaryCtx_def newPrimaryCtx_def make_chan_def nth_append)
next
  case DoSetIsPrimaryFalse
  with assms show ?thesis
    by (auto simp: primary_inv_def setIsPrimary_def)
next
  case (DoEnforceRetention retain now)
  with assms EnforceRetention_flag [of retain now s] show ?thesis
    by (auto simp: primary_inv_def)
next
  case (DoProcessLTXStreamFrame env nm)
  with assms processLTXStreamFrame_flag [of env s nm] show ?thesis
    by (auto simp: primary_inv_def)
qed

lemma store_run_not_primary:
  "primary_inv s \<Longrightarrow> \<not> isPrimary s \<Longrightarrow> store_run s xs = Inr s1 \<Longrightarrow>
     primary_inv s1 \<and> \<not> isPrimary s1"
proof (induction xs arbitrary: s)
  case Nil
  then show ?case by simp
next
  case (Cons x xs)
  then obtain s2 where st: "store_step s x = Inr s2" and run: "store_run s2 xs = Inr s1"
    by (auto split: sum.splits)
  from store_step_not_primary [OF Cons.prems(1,2) st] Cons.IH [OF _ _ run]
  show ?case by simp
qed

lemma NewStore_primary_inv: "primary_inv (NewStore cand)"
  by (simp add: primary_inv_def NewStore_def)

lemma setIsPrimary_primary_inv:
  "primary_inv s \<Longrightarrow> \<exists>s1. setIsPrimary s v = Inr s1 \<and> primary_inv s1 \<and> isPrimary s1 = v"
  by (auto simp: primary_inv_def setIsPrimary_def make_chan_def close_chan_def nth_append)

text \<open>C10. \<^verbatim>\<open>NewStore\<close> leaves the store not primary with a primary channel that is
  closed already.  Whatever the node does before it becomes primary (any sequence of the
  store's operations other than \<^verbatim>\<open>setIsPrimary(true)\<close>), the store stays not primary
  with its primary channel closed.  In every such store \<^verbatim>\<open>PrimaryCtx\<close> returns a
  context over the given parent and the store's primary channel, with a new \<^verbatim>\<open>done\<close>
  channel; its \<^verbatim>\<open>Err()\<close> is \<open>ErrLeaseExpired\<close>, whatever the parent, and its goroutine
  closes \<^verbatim>\<open>Done()\<close> at once.  \<^verbatim>\<open>setIsPrimary\<close> puts another channel in place exactly
  when the flag goes from false to true, that channel is open, and no channel that was
  closed is open afterwards.\<close>

theorem NewStore_primaryCh_closed:
  "is_closed (chans (NewStore cand)) (primaryCh (NewStore cand)) \<and>
   \<not> isPrimary (NewStore cand) \<and>
   primary_inv (NewStore cand) \<and>
   (case PrimaryCtx (NewStore cand) p of
      (ctx, s1) \<Rightarrow>
        Err (chans s1) parents ctx = Some ErrLeaseExpired \<and>
        (\<exists>h. primaryCtx_watch (chans s1) parents ctx = Some (Inr h) \<and> is_closed h (Done ctx))) \<and>
   (store_run (NewStore cand) ops = Inr sr \<longrightarrow>
      primary_inv sr \<and> \<not> isPrimary sr \<and> is_closed (chans sr) (primaryCh sr)) \<and>
   (primary_inv si \<and> \<not> isPrimary si \<longrightarrow>
      (case PrimaryCtx si p of
         (ctx, s1) \<Rightarrow>
           ctx_parent ctx = p \<and> ctx_primaryCh ctx = primaryCh si \<and>
           Done ctx = length (chans si) \<and> chans s1 = chans si @ [False] \<and>
           primaryCh s1 = primaryCh si \<and> \<not> isPrimary s1 \<and>
           Err (chans s1) parents ctx = Some ErrLeaseExpired \<and>
           primaryCtx_watch (chans s1) parents ctx = Some (Inr (chans si @ [True])) \<and>
           is_closed (chans si @ [True]) (Done ctx))) \<and>
   (primaryCh s < length (chans s) \<and> setIsPrimary s v = Inr s2 \<longrightarrow>
      (primaryCh s2 \<noteq> primaryCh s \<longleftrightarrow> \<not> isPrimary s \<and> v) \<and>
      (\<not> isPrimary s \<and> v \<longrightarrow> \<not> is_closed (chans s2) (primaryCh s2)) \<and>
      (\<forall>c. is_closed (chans s) c \<longrightarrow> is_closed (chans s2) c))"
proof -
  have new: "primary_inv (NewStore cand)" "\<not> isPrimary (NewStore cand)"
    by (simp_all add: primary_inv_def NewStore_def)
  have closed: "is_closed (chans t) (primaryCh t)" if "primary_inv t" "\<not> isPrimary t" for t
    using that by (simp add: primary_inv_def is_closed_def)
  have ctx: "case PrimaryCtx t p of
         (ctx, s1) \<Rightarrow>
           ctx_parent ctx = p \<and> ctx_primaryCh ctx = primaryCh t \<and>
           Done ctx = length (chans t) \<and> chans s1 = chans t @ [False] \<and>
           primaryCh s1 = primaryCh t \<and> \<not> isPrimary s1 \<and>
           Err (chans s1) parents ctx = Some ErrLeaseExpired \<and>
           primaryCtx_watch (chans s1) parents ctx = Some (Inr (chans t @ [True])) \<and>
           is_closed (chans t @ [True]) (Done ctx)"
    if "primary_inv t \<and> \<not> isPrimary t" for t
    using that
    by (auto simp: primary_inv_def PrimaryCtx_def newPrimaryCtx_def make_chan_def Err_def
        primaryCtx_watch_def is_closed_def close_chan_def Done_def nth_append)
  have run: "primary_inv sr \<and> \<not> isPrimary sr \<and> is_closed (chans sr) (primaryCh sr)"
    if r: "store_run (NewStore cand) ops = Inr sr"
  proof -
    from store_run_not_primary [OF new r] have "primary_inv sr" "\<not> isPrimary sr"
      by simp_all
    with closed [of sr] show ?thesis by simp
  qed
  have set: "(primaryCh s2 \<noteq> primaryCh s \<longleftrightarrow> \<not> isPrimary s \<and> v) \<and>
      (\<not> isPrimary s \<and> v \<longrightarrow> \<not> is_closed (chans s2) (primaryCh s2)) \<and>
      (\<forall>c. is_closed (chans s) c \<longrightarrow> is_closed (chans s2) c)"
    if "primaryCh s < length (chans s) \<and> setIsPrimary s v = Inr s2"
    using that
    by (auto simp: setIsPrimary_def make_chan_def close_chan_def is_closed_def nth_append
        nth_list_update split: if_splits sum.splits)
  have first: "case PrimaryCtx (NewStore cand) p of
      (ctx, s1) \<Rightarrow>
        Err (chans s1) parents ctx = Some ErrLeaseExpired \<and>
        (\<exists>h. primaryCtx_watch (chans s1) parents ctx = Some (Inr h) \<and> is_closed h (Done ctx))"
    by (simp add: NewStore_def PrimaryCtx_def newPrimaryCtx_def make_chan_def Err_def
        primaryCtx_watch_def is_closed_def close_chan_def Done_def)
  show ?thesis
    apply (intro conjI)
          apply (rule closed [OF new])
         apply (rule new(2))
        apply (rule new(1))
       apply (rule first)
      apply (rule impI, erule run)
     apply (rule impI, erule ctx)
    apply (rule impI, erule set)
    done
qed


theorem NewStore_primaryCh_closed_witness:
  "store_run (NewStore True) [DoMarkReady, DoCreateDBIfNotExists sample_dbEnv ''db'', DoPrimaryCtx 4] =
     Inr (snd (PrimaryCtx (snd (CreateDBIfNotExists sample_dbEnv
            ((NewStore True)\<lparr>chans := [True, True, False]\<rparr>) ''db'')) 4)) \<and>
   primary_inv (sample_store\<lparr>chans := [True, True, False]\<rparr>) \<and>
   \<not> isPrimary (sample_store\<lparr>chans := [True, True, False]\<rparr>) \<and>
   ctx_primaryCh (fst (PrimaryCtx (sample_store\<lparr>chans := [True, True, False]\<rparr>) 4)) = 0 \<and>
   Done (fst (PrimaryCtx (sample_store\<lparr>chans := [True, True, False]\<rparr>) 4)) = 3 \<and>
   chans (snd (PrimaryCtx (sample_store\<lparr>chans := [True, True, False]\<rparr>) 4)) = [True, True, False, False] \<and>
   Err (chans (snd (PrimaryCtx (sample_store\<lparr>chans := [True, True, False]\<rparr>) 4))) (\<lambda>p. None)
       (fst (PrimaryCtx (sample_store\<lparr>chans := [True, True, False]\<rparr>) 4)) = Some ErrLeaseExpired \<and>
   primaryCtx_watch (chans (snd (PrimaryCtx (sample_store\<lparr>chans := [True, True, False]\<rparr>) 4))) (\<lambda>p. None)
       (fst (PrimaryCtx (sample_store\<lparr>chans := [True, True, False]\<rparr>) 4)) =
     Some (Inr [True, True, False, True]) \<and>
   primary_inv (snd (PrimaryCtx (snd (CreateDBIfNotExists sample_dbEnv
            ((NewStore True)\<lparr>chans := [True, True, False]\<rparr>) ''db'')) 4)) \<and>
   primaryCh (NewStore True) < length (chans (NewStore True)) \<and>
   setIsPrimary (NewStore True) True =
     Inr ((NewStore True)\<lparr>isPrimary := True, primaryCh := 3, chans := [True, False, False, False]\<rparr>) \<and>
   \<not> isPrimary (NewStore True) \<and>
   primaryCh ((NewStore True)\<lparr>isPrimary := True, primaryCh := 3, chans := [True, False, False, False]\<rparr>)
     \<noteq> primaryCh (NewStore True) \<and>
   \<not> is_closed [True, False, False, False] 3 \<and>
   is_closed (chans (NewStore True)) 0 \<and> is_closed [True, False, False, False] 0"
proof -
  let ?si = "sample_store\<lparr>chans := [True, True, False]\<rparr>"
  let ?sr = "snd (PrimaryCtx (snd (CreateDBIfNotExists sample_dbEnv
            ((NewStore True)\<lparr>chans := [True, True, False]\<rparr>) ''db'')) 4)"
  have r: "store_run (NewStore True) [DoMarkReady, DoCreateDBIfNotExists sample_dbEnv ''db'', DoPrimaryCtx 4] =
     Inr ?sr"
    by (simp add: markReady_def is_closed_def close_chan_def NewStore_def)
  have i: "primary_inv ?si" "\<not> isPrimary ?si"
    by (simp_all add: primary_inv_def sample_store_def NewStore_def)
  have v: "primaryCh ?si = 0" "chans ?si = [True, True, False]"
    by (simp_all add: sample_store_def NewStore_def)
  have n: "primaryCh (NewStore True) < length (chans (NewStore True))"
    "setIsPrimary (NewStore True) True =
     Inr ((NewStore True)\<lparr>isPrimary := True, primaryCh := 3, chans := [True, False, False, False]\<rparr>)"
    by (simp_all add: NewStore_def setIsPrimary_def make_chan_def)
  note T = NewStore_primaryCh_closed [where cand = True and p = 4 and parents = "\<lambda>p. None"
      and ops = "[DoMarkReady, DoCreateDBIfNotExists sample_dbEnv ''db'', DoPrimaryCtx 4]"
      and sr = ?sr and si = ?si and s = "NewStore True" and v = True
      and ?s2.0 = "(NewStore True)\<lparr>isPrimary := True, primaryCh := 3, chans := [True, False, False, False]\<rparr>"]
  note rest3 = T [THEN conjunct2, THEN conjunct2, THEN conjunct2]
  note rest4 = rest3 [THEN conjunct2]
  note rest5 = rest4 [THEN conjunct2]
  obtain ctx s1 where p: "PrimaryCtx ?si 4 = (ctx, s1)"
    by (cases "PrimaryCtx ?si 4")
  from rest4 [THEN conjunct1, THEN mp, OF r]
  have run: "primary_inv ?sr"
    by (rule conjunct1)
  from rest5 [THEN conjunct1, THEN mp, OF conjI [OF i]]
  have c: "ctx_primaryCh ctx = primaryCh ?si \<and> Done ctx = length (chans ?si) \<and>
      chans s1 = chans ?si @ [False] \<and> Err (chans s1) (\<lambda>p. None) ctx = Some ErrLeaseExpired \<and>
      primaryCtx_watch (chans s1) (\<lambda>p. None) ctx = Some (Inr (chans ?si @ [True]))"
    unfolding p by auto
  from rest5 [THEN conjunct2, THEN mp, OF conjI [OF n]]
  have st: "primaryCh ((NewStore True)\<lparr>isPrimary := True, primaryCh := 3,
        chans := [True, False, False, False]\<rparr>) \<noteq> primaryCh (NewStore True)"
    by (simp add: NewStore_def)
  have z: "\<not> isPrimary (NewStore True)" "\<not> is_closed [True, False, False, False] 3"
    "is_closed (chans (NewStore True)) 0" "is_closed [True, False, False, False] 0"
    by (simp_all add: NewStore_def is_closed_def)
  have cs: "ctx_primaryCh ctx = 0" "Done ctx = 3" "chans s1 = [True, True, False, False]"
    "Err [True, True, False, False] (\<lambda>p. None) ctx = Some ErrLeaseExpired"
    "primaryCtx_watch [True, True, False, False] (\<lambda>p. None) ctx = Some (Inr [True, True, False, True])"
    using c by (auto simp: v)
  from r i n run st z show ?thesis
    unfolding p by (simp add: cs)
qed

subsection \<open>Renewal of the lease\<close>

lemma not_sless_iff: "(\<not> (a::Duration) <s b) \<longleftrightarrow> b \<le>s a"
  by (simp add: word_sless_alt word_sle_eq not_less)

text \<open>As long as the time since the last renewal is not negative and at least a second
  below the largest \<^verbatim>\<open>time.Duration\<close>, the test of the loop is the comparison of the
  integers.  At the largest duration, to which \<^verbatim>\<open>time.Since\<close> saturates, the sum wraps
  around and the loop retries.\<close>

lemma retry_condition_int:
  assumes "0 \<le> sint since" and "sint since + 1000000000 < 2 ^ 63"
  shows "since + timeout \<le>s ttl \<longleftrightarrow> sint since + 1000000000 \<le> sint (ttl :: Duration)"
proof -
  have "sint (since + timeout) = signed_take_bit 63 (sint since + 1000000000)"
    by (simp add: sint_word_ariths timeout_def Second_def)
  also have "\<dots> = sint since + 1000000000"
    using assms by (intro signed_take_bit_int_eq_self) auto
  finally show ?thesis
    by (simp add: word_sle_eq)
qed

lemma retry_condition_wraps:
  "(0x7FFFFFFFFFFFFFFF :: Duration) + timeout \<le>s 10 * Second"
  by (simp add: timeout_def Second_def word_sle_eq)

text \<open>C7. In the renewal loop: when \<^verbatim>\<open>Renew\<close> returns \<open>ErrLeaseExpired\<close> the round
  returns it without any sleep; when it returns another error the loop goes round again
  with a wait of one second exactly when \<^verbatim>\<open>time.Since(lease.RenewedAt()) + 1s\<close> is at
  most the TTL (in \<^verbatim>\<open>time.Duration\<close> arithmetic), and otherwise sleeps a second and
  returns \<open>ErrLeaseExpired\<close>; after a successful renewal the wait is TTL/2 again.\<close>

theorem renewal_retry_rule:
  "renewRound lease w (TimerFired (Some ErrLeaseExpired) since) =
     (Return (Some ErrLeaseExpired) False, [After w]) \<and>
   renewRound lease w (TimerFired None since) = (Continue (duration_div (TTL lease) 2), [After w]) \<and>
   (e \<noteq> ErrLeaseExpired \<longrightarrow>
      (since + timeout \<le>s TTL lease \<longrightarrow>
         renewRound lease w (TimerFired (Some e) since) = (Continue Second, [After w]) \<and>
         renewLoop lease w (TimerFired (Some e) since # evs) =
           (fst (renewLoop lease Second evs), After w # snd (renewLoop lease Second evs))) \<and>
      (\<not> since + timeout \<le>s TTL lease \<longrightarrow>
         renewRound lease w (TimerFired (Some e) since) =
           (Return (Some ErrLeaseExpired) False, [After w, Sleep timeout]) \<and>
         renewLoop lease w (TimerFired (Some e) since # evs) =
           (Some (Some ErrLeaseExpired, False), [After w, Sleep timeout]))) \<and>
   renewLoop lease w (TimerFired None since # evs) =
     (fst (renewLoop lease (duration_div (TTL lease) 2) evs),
      After w # snd (renewLoop lease (duration_div (TTL lease) 2) evs)) \<and>
   timeout = Second"
  by (auto simp: not_sless_iff [symmetric] timeout_def split: prod.splits)

theorem renewal_retry_rule_witness:
  "ExtErr ''unreachable'' \<noteq> ErrLeaseExpired \<and>
   5 * Second + timeout \<le>s TTL \<lparr>TTL = 10 * Second, closeErr = None\<rparr> \<and>
   renewRound \<lparr>TTL = 10 * Second, closeErr = None\<rparr> (5 * Second)
       (TimerFired (Some (ExtErr ''unreachable'')) (5 * Second)) =
     (Continue Second, [After (5 * Second)]) \<and>
   renewLoop \<lparr>TTL = 10 * Second, closeErr = None\<rparr> (5 * Second)
       [TimerFired (Some (ExtErr ''unreachable'')) (5 * Second), TimerFired None (6 * Second), CtxDone] =
     (Some (None, False), [After (5 * Second), After Second]) \<and>
   \<not> 9 * Second + 1 + timeout \<le>s TTL \<lparr>TTL = 10 * Second, closeErr = None\<rparr> \<and>
   renewRound \<lparr>TTL = 10 * Second, closeErr = None\<rparr> Second
       (TimerFired (Some (ExtErr ''unreachable'')) (9 * Second + 1)) =
     (Return (Some ErrLeaseExpired) False, [After Second, Sleep timeout])"
  using renewal_retry_rule [where lease = "\<lparr>TTL = 10 * Second, closeErr = None\<rparr>"
      and w = "5 * Second" and since = "5 * Second" and e = "ExtErr ''unreachable''"
      and evs = "[TimerFired None (6 * Second), CtxDone]"]
    renewal_retry_rule [where lease = "\<lparr>TTL = 10 * Second, closeErr = None\<rparr>"
      and w = "Second" and since = "9 * Second + 1" and e = "ExtErr ''unreachable''"
      and evs = "[]"]
  by (simp add: timeout_def Second_def word_sle_eq)

subsection \<open>Retention\<close>

lemma retentionLoop_called:
  "retentionLoop retain minTime ds err = (err1, ds1, called) \<Longrightarrow>
     called = map (\<lambda>(nm, db). name db) ds"
  by (induction ds arbitrary: err err1 ds1 called) (auto split: prod.splits)

lemma EnforceRetention_nil: "fst (EnforceRetention retain now s) = None"
  by (simp add: EnforceRetention_def Let_def split: prod.splits)

lemma EnforceRetention_called:
  "0 <s Retention s \<Longrightarrow>
     snd (snd (EnforceRetention retain now s)) = map (\<lambda>(nm, db). name db) (dbs s)"
  by (auto simp: EnforceRetention_def Let_def word_sless_alt word_sle_eq
      split: prod.splits dest: retentionLoop_called)

text \<open>C1. With a positive retention, \<^verbatim>\<open>Store.EnforceRetention\<close> calls the per-database
  enforcement on every database, also after one has failed, but it returns nil although
  the first database failed: the variable that holds the wrapped first error is dropped
  at \<^verbatim>\<open>return nil\<close>.\<close>

theorem EnforceRetention_returns_nil_after_failure:
  "0 <s Retention sample_store2 \<and>
   fst (sample_retain (NewDB ''a'') 400000000000) = Some (ExtErr ''permission denied'') \<and>
   EnforceRetention sample_retain 1000000000000 sample_store2 = (None, sample_store2, [''a'', ''b'']) \<and>
   fst (retentionLoop sample_retain 400000000000 (dbs sample_store2) None) =
     Some (RetentionErr ''a'' (Some (ExtErr ''permission denied'')))"
  by code_simp

subsection \<open>Directories\<close>

lemma map_of_dirPut: "map_of (dirPut nm k d) n = (if n = nm then Some k else map_of d n)"
proof -
  have "map_of (map (\<lambda>ent. if fst ent = nm then (nm, k) else ent) d) n =
          (if n = nm then (if map_of d nm = None then None else Some k) else map_of d n)"
    by (induction d) auto
  then show ?thesis
    by (auto simp: dirPut_def map_add_def split: option.splits)
qed

lemma map_of_dirRemove: "map_of (dirRemove nm d) n = (if n = nm then None else map_of d n)"
  by (induction d) (auto simp: dirRemove_def)

lemma set_dirPut:
  "(n, k') \<in> set (dirPut nm k d) \<Longrightarrow> (n = nm \<and> k' = k) \<or> (n \<noteq> nm \<and> (n, k') \<in> set d)"
  by (force simp: dirPut_def map_of_eq_None_iff split: if_splits)

lemma set_dirRemove: "(n, k) \<in> set (dirRemove nm d) \<longleftrightarrow> n \<noteq> nm \<and> (n, k) \<in> set d"
  by (auto simp: dirRemove_def)

lemma osRemove_cases:
  "osRemove env d nm = (err, d1) \<Longrightarrow>
     (err \<noteq> None \<and> d1 = d) \<or> (err = None \<and> d1 = dirRemove nm d)"
  by (auto simp: osRemove_def split: option.splits)

lemma removeLoop_keeps:
  "removeLoop env ents fn d r = (r1, d1) \<Longrightarrow> map_of d1 fn = map_of d fn \<and> set d1 \<subseteq> set d"
proof (induction env ents fn d r rule: removeLoop.induct)
  case (1 env filename d retErr)
  then show ?case by simp
next
  case (2 env nm k ents filename d retErr)
  show ?case
  proof (cases "k = Dir \<or> nm = filename")
    case True
    with 2 show ?thesis by simp
  next
    case False
    obtain err d2 where r: "osRemove env d nm = (err, d2)"
      by (cases "osRemove env d nm")
    with 2 False have "map_of d1 filename = map_of d2 filename \<and> set d1 \<subseteq> set d2"
      by simp
    moreover from osRemove_cases [OF r] False have "map_of d2 filename = map_of d filename \<and> set d2 \<subseteq> set d"
      by (auto simp: map_of_dirRemove set_dirRemove)
    ultimately show ?thesis by auto
  qed
qed

lemma removeLoop_retErr:
  "removeLoop env ents fn d r = (None, d1) \<Longrightarrow> r = None"
proof (induction env ents fn d r rule: removeLoop.induct)
  case (1 env filename d retErr)
  then show ?case by simp
next
  case (2 env nm k ents filename d retErr)
  then show ?case
    by (auto split: if_splits prod.splits)
qed

lemma removeLoop_removed:
  "removeLoop env ents fn d r = (None, d1) \<Longrightarrow> (n, k) \<in> set ents \<Longrightarrow> k \<noteq> Dir \<Longrightarrow> n \<noteq> fn \<Longrightarrow>
     n \<notin> fst ` set d1"
proof (induction env ents fn d r rule: removeLoop.induct)
  case (1 env filename d retErr)
  then show ?case by simp
next
  case (2 env nm k' ents filename d retErr)
  show ?case
  proof (cases "k' = Dir \<or> nm = filename")
    case True
    with 2 show ?thesis by auto
  next
    case False
    obtain err d2 where r: "osRemove env d nm = (err, d2)"
      by (cases "osRemove env d nm")
    with "2.prems" False have loop: "removeLoop env ents filename d2 (if retErr = None then err else retErr) = (None, d1)"
      by simp
    show ?thesis
    proof (cases "(n, k) \<in> set ents")
      case True
      with "2.IH"(2) [OF False r [symmetric] loop] "2.prems" show ?thesis by simp
    next
      case False
      with "2.prems" have nk: "n = nm" by simp
      from removeLoop_retErr [OF loop] have "retErr = None" "err = None"
        by (auto split: if_splits)
      with osRemove_cases [OF r] have "d2 = dirRemove nm d" by simp
      moreover from removeLoop_keeps [OF loop] have "set d1 \<subseteq> set d2" by simp
      ultimately show ?thesis
        using nk by (auto simp: set_dirRemove)
    qed
  qed
qed

lemma removeFilesExcept_ok:
  assumes "removeFilesExcept env d fn = (None, d1)"
  shows "map_of d1 fn = map_of d fn" and "set d1 \<subseteq> set d"
    and "\<forall>(n, k) \<in> set d1. k = Dir \<or> n = fn"
proof -
  from assms have loop: "removeLoop env d fn d None = (None, d1)"
    by (simp add: removeFilesExcept_def split: option.splits)
  from removeLoop_keeps [OF loop] show "map_of d1 fn = map_of d fn" and sub: "set d1 \<subseteq> set d"
    by simp_all
  show "\<forall>(n, k) \<in> set d1. k = Dir \<or> n = fn"
  proof (clarify)
    fix n k assume nk: "(n, k) \<in> set d1" and "n \<noteq> fn"
    show "k = Dir"
    proof (rule ccontr)
      assume "k \<noteq> Dir"
      with removeLoop_removed [OF loop _ this \<open>n \<noteq> fn\<close>] nk sub
      have "n \<notin> fst ` set d1" by auto
      with nk show False by force
    qed
  qed
qed

subsection \<open>Writing and applying an LTX file\<close>

lemma CreateDBIfNotExists_result:
  assumes "CreateDBIfNotExists env s nm = (Inr db, s1)"
  shows "store_id s1 = store_id s" and "map_of (dbs s1) nm = Some db"
    and "map_of (dbs s) nm \<noteq> None \<Longrightarrow> s1 = s"
  using assms
  by (auto simp: CreateDBIfNotExists_def markDirty_def update_conv'
      split: option.splits sum.splits)

lemma ApplyLTXNoLock_ok:
  "ApplyLTXNoLock env db path = (None, db1) \<Longrightarrow> map_of (ltxDir db) path = Some (File (Some f)) \<Longrightarrow>
     db1 = db\<lparr>pos := \<lparr>TXID = MaxTXID (hdr f), PostApplyChecksum = postApplyChecksum f\<rparr>\<rparr>"
  by (auto simp: ApplyLTXNoLock_def split: option.splits)

lemma ApplyLTXNoLock_keeps:
  "ApplyLTXNoLock env db path = (err, db1) \<Longrightarrow>
     remoteHaltLock db1 = remoteHaltLock db \<and> ltxDir db1 = ltxDir db \<and> name db1 = name db \<and>
     (err \<noteq> None \<longrightarrow> db1 = db)"
  by (auto simp: ApplyLTXNoLock_def split: option.splits fsnode.splits)

lemma dirRename_tmp:
  assumes "tmp \<noteq> path"
  shows "dirRename tmp path (dirPut tmp k (dirPut tmp k0 d)) = dirPut path k (dirRemove tmp d)"
proof -
  have "filter (\<lambda>ent. fst ent \<noteq> tmp) (map (\<lambda>ent. if fst ent = tmp then (tmp, k1) else ent) d1) =
          filter (\<lambda>ent. fst ent \<noteq> tmp) d1" for k1 and d1 :: directory
    by (induction d1) auto
  then have "dirRemove tmp (dirPut tmp k1 d1) = dirRemove tmp d1" for k1 d1
    by (simp add: dirRemove_def dirPut_def)
  then show ?thesis
    by (simp add: dirRename_def map_of_dirPut)
qed

lemma writeLTX_keeps:
  "writeLTX env db f path tmp = (err, db1) \<Longrightarrow>
     remoteHaltLock db1 = remoteHaltLock db \<and> name db1 = name db"
  by (auto simp: writeLTX_def Let_def split: option.splits prod.splits dest: ApplyLTXNoLock_keeps)

lemma writeLTX_ok:
  assumes w: "writeLTX env db f path tmp = (None, db1)" and ne: "tmp \<noteq> path"
  shows "pos db1 = \<lparr>TXID = MaxTXID (hdr f), PostApplyChecksum = postApplyChecksum f\<rparr>"
    and "map_of (ltxDir db1) path = Some (File (Some f))"
    and "\<forall>(n, k) \<in> set (ltxDir db1). n = path \<longrightarrow> k = File (Some f)"
    and "IsSnapshot (hdr f) \<Longrightarrow> \<forall>(n, k) \<in> set (ltxDir db1). k = Dir \<or> n = path"
    and "\<not> IsSnapshot (hdr f) \<Longrightarrow> ltxDir db1 = dirPut path (File (Some f)) (dirRemove tmp (ltxDir db))"
proof -
  define d3 where "d3 = dirPut path (File (Some f)) (dirRemove tmp (ltxDir db))"
  have d3_path: "map_of d3 path = Some (File (Some f))"
    by (simp add: d3_def map_of_dirPut)
  have d3_only: "\<forall>(n, k) \<in> set d3. n = path \<longrightarrow> k = File (Some f)"
    by (auto simp: d3_def dest: set_dirPut)
  obtain d4 where rm: "(if IsSnapshot (hdr f) then removeFilesExcept env d3 path else (None, d3)) = (None, d4)"
    and ap: "ApplyLTXNoLock env (db\<lparr>ltxDir := d4\<rparr>) path = (None, db1)"
    using w ne unfolding d3_def
    by (auto simp: writeLTX_def Let_def dirRename_tmp split: option.splits prod.splits)
  have d4_path: "map_of d4 path = Some (File (Some f))" and d4_sub: "set d4 \<subseteq> set d3"
    using rm d3_path removeFilesExcept_ok(1,2) [of env d3 path d4]
    by (auto split: if_splits)
  from ApplyLTXNoLock_ok [OF ap] d4_path
  have db1: "db1 = db\<lparr>ltxDir := d4, pos := \<lparr>TXID = MaxTXID (hdr f), PostApplyChecksum = postApplyChecksum f\<rparr>\<rparr>"
    by simp
  show "pos db1 = \<lparr>TXID = MaxTXID (hdr f), PostApplyChecksum = postApplyChecksum f\<rparr>"
    by (simp add: db1)
  show "map_of (ltxDir db1) path = Some (File (Some f))"
    by (simp add: db1 d4_path)
  show "\<forall>(n, k) \<in> set (ltxDir db1). n = path \<longrightarrow> k = File (Some f)"
    using d3_only d4_sub by (auto simp: db1)
  show "\<forall>(n, k) \<in> set (ltxDir db1). k = Dir \<or> n = path" if "IsSnapshot (hdr f)"
    using that rm removeFilesExcept_ok(3) [of env d3 path d4] by (simp add: db1)
  show "ltxDir db1 = dirPut path (File (Some f)) (dirRemove tmp (ltxDir db))" if "\<not> IsSnapshot (hdr f)"
    using that rm by (simp add: db1 d3_def)
qed

lemma installLTX_keeps:
  "installLTX env db f = (err, db1) \<Longrightarrow> remoteHaltLock db1 = remoteHaltLock db \<and> name db1 = name db"
  by (auto simp: installLTX_def Let_def split: prod.splits dest: writeLTX_keeps)

lemma osRemove_other:
  "osRemove env d tmp = (err, d1) \<Longrightarrow> tmp \<noteq> path \<Longrightarrow>
     map_of d1 path = map_of d path \<and> set d1 \<subseteq> set d"
  by (auto simp: map_of_dirRemove set_dirRemove dest!: osRemove_cases)

lemma installLTX_ok:
  assumes "installLTX env db f = (None, db1)"
  shows "pos db1 = \<lparr>TXID = MaxTXID (hdr f), PostApplyChecksum = postApplyChecksum f\<rparr>"
    and "(LTXPath (MinTXID (hdr f)) (MaxTXID (hdr f)), File (Some f)) \<in> set (ltxDir db1)"
    and "IsSnapshot (hdr f) \<Longrightarrow>
           \<forall>(n, k) \<in> set (ltxDir db1). k = Dir \<or> (n, k) = (LTXPath (MinTXID (hdr f)) (MaxTXID (hdr f)), File (Some f))"
proof -
  define path where "path = LTXPath (MinTXID (hdr f)) (MaxTXID (hdr f))"
  define tmp where "tmp = path @ ''.'' @ decimal (randInt env) @ ''.tmp''"
  have ne: "tmp \<noteq> path"
    by (simp add: tmp_def)
  obtain db2 where w: "writeLTX env db f path tmp = (None, db2)"
    and db1: "db1 = db2\<lparr>ltxDir := snd (osRemove env (ltxDir db2) tmp)\<rparr>"
    using assms by (auto simp: installLTX_def Let_def path_def tmp_def split: prod.splits)
  obtain err where r: "osRemove env (ltxDir db2) tmp = (err, ltxDir db1)"
    by (cases "osRemove env (ltxDir db2) tmp") (simp add: db1)
  note keep = osRemove_other [OF r ne]
  show "pos db1 = \<lparr>TXID = MaxTXID (hdr f), PostApplyChecksum = postApplyChecksum f\<rparr>"
    using writeLTX_ok(1) [OF w ne] by (simp add: db1)
  have "map_of (ltxDir db1) path = Some (File (Some f))"
    using writeLTX_ok(2) [OF w ne] keep by simp
  then show "(LTXPath (MinTXID (hdr f)) (MaxTXID (hdr f)), File (Some f)) \<in> set (ltxDir db1)"
    unfolding path_def by (rule map_of_SomeD)
  show "\<forall>(n, k) \<in> set (ltxDir db1). k = Dir \<or> (n, k) = (LTXPath (MinTXID (hdr f)) (MaxTXID (hdr f)), File (Some f))"
    if "IsSnapshot (hdr f)"
    using writeLTX_ok(3) [OF w ne] writeLTX_ok(4) [OF w ne that] keep
    unfolding path_def [symmetric] by blast
qed

lemma writeLTX_err_pos:
  "writeLTX env db f path tmp = (Some e, db1) \<Longrightarrow> pos db1 = pos db"
  by (auto simp: writeLTX_def Let_def split: option.splits prod.splits dest: ApplyLTXNoLock_keeps)

lemma installLTX_err_pos:
  "installLTX env db f = (Some e, db1) \<Longrightarrow> pos db1 = pos db"
  by (auto simp: installLTX_def Let_def split: prod.splits dest: writeLTX_err_pos)

subsection \<open>Ingest of an LTX stream frame\<close>

lemma process_self_origin:
  assumes "CreateDBIfNotExists (dbEnv env) s nm = (Inr db, s1)" and "decodeHeader env = Inr f"
    and "acquireWriteLock env = None" and "NodeID (hdr f) = store_id s"
  shows "processLTXStreamFrame env s nm =
           (case verify env of
              Some e \<Rightarrow> (Some (Errorf ''verify duplicate ltx file'' e), s1)
            | None \<Rightarrow>
           (case discard env of
              Some e \<Rightarrow> (Some (Errorf ''discard ltx body'' e), s1)
            | None \<Rightarrow> (None, s1)))"
  using assms CreateDBIfNotExists_result(1) [OF assms(1)]
  by (simp add: processLTXStreamFrame_def)

lemma process_foreign:
  assumes "CreateDBIfNotExists (dbEnv env) s nm = (Inr db, s1)" and "decodeHeader env = Inr f"
    and "acquireWriteLock env = None" and "NodeID (hdr f) \<noteq> store_id s"
    and "remoteHaltLock db \<noteq> None \<longrightarrow> unsetHalt env = None"
  shows "processLTXStreamFrame env s nm =
           (if \<not> IsSnapshot (hdr f) \<and> pos db \<noteq> expectedPos (hdr f) then
              (Some (PositionMismatch (name db) (pos db) (expectedPos (hdr f))),
               s1\<lparr>dbs := AList.update nm (db\<lparr>remoteHaltLock := None\<rparr>) (dbs s1)\<rparr>)
            else
              (case installLTX env (db\<lparr>remoteHaltLock := None\<rparr>) f of
                 (err, db2) \<Rightarrow> (err, s1\<lparr>dbs := AList.update nm db2 (dbs s1)\<rparr>)))"
proof -
  have "(case RemoteHaltLock db of
           None \<Rightarrow> (None, db)
         | Some haltLock \<Rightarrow> UnsetRemoteHaltLock env db (ID haltLock)) =
        (None, db\<lparr>remoteHaltLock := None\<rparr>)"
    using assms(5)
    by (auto simp: RemoteHaltLock_def UnsetRemoteHaltLock_def split: option.splits)
  then show ?thesis
    using assms(1-4) CreateDBIfNotExists_result(1) [OF assms(1)]
    by (simp add: processLTXStreamFrame_def)
qed

lemma expectedPos_iff:
  "pos db = expectedPos h \<longleftrightarrow>
     MinTXID h = TXID (pos db) + 1 \<and> PreApplyChecksum h = PostApplyChecksum (pos db)"
  by (cases "pos db") (auto simp: expectedPos_def)

text \<open>C5. A frame whose header carries the store's own node id is verified and its body
  consumed, but it is not applied: the store afterwards is the store as
  \<^verbatim>\<open>CreateDBIfNotExists\<close> left it (the store itself when the database existed), so the
  database has its position and its LTX directory as before; and the function returns nil
  when the write lock is acquired, the verification succeeds and the body is consumed
  without error.\<close>

theorem self_origin_frame_verified_not_applied:
  assumes "CreateDBIfNotExists (dbEnv env) s nm = (Inr db, s1)"
    and "decodeHeader env = Inr f"
    and "NodeID (hdr f) = store_id s"
  shows "snd (processLTXStreamFrame env s nm) = s1 \<and>
         map_of (dbs (snd (processLTXStreamFrame env s nm))) nm = Some db \<and>
         (map_of (dbs s) nm \<noteq> None \<longrightarrow> snd (processLTXStreamFrame env s nm) = s) \<and>
         (acquireWriteLock env = None \<longrightarrow>
            fst (processLTXStreamFrame env s nm) =
              (case verify env of
                 Some e \<Rightarrow> Some (Errorf ''verify duplicate ltx file'' e)
               | None \<Rightarrow> map_option (Errorf ''discard ltx body'') (discard env))) \<and>
         (acquireWriteLock env = None \<and> verify env = None \<and> discard env = None \<longrightarrow>
            fst (processLTXStreamFrame env s nm) = None)"
proof -
  have s1: "snd (processLTXStreamFrame env s nm) = s1"
  proof (cases "acquireWriteLock env")
    case None
    from process_self_origin [OF assms(1,2) None assms(3)] show ?thesis
      by (simp split: option.splits)
  next
    case (Some e)
    with assms(1,2) show ?thesis
      by (simp add: processLTXStreamFrame_def)
  qed
  moreover have "fst (processLTXStreamFrame env s nm) =
      (case verify env of
         Some e \<Rightarrow> Some (Errorf ''verify duplicate ltx file'' e)
       | None \<Rightarrow> map_option (Errorf ''discard ltx body'') (discard env))"
    if "acquireWriteLock env = None"
    using process_self_origin [OF assms(1,2) that assms(3)]
    by (simp split: option.splits)
  ultimately show ?thesis
    using CreateDBIfNotExists_result(2,3) [OF assms(1)] by (auto split: option.splits)
qed

theorem self_origin_frame_verified_not_applied_witness:
  "CreateDBIfNotExists (dbEnv sample_env) (sample_store\<lparr>store_id := 9\<rparr>) ''db'' =
     (Inr sample_db, sample_store\<lparr>store_id := 9\<rparr>) \<and>
   decodeHeader (sample_env\<lparr>decodeHeader := Inr (sample_file 6 6 0xAA 0xCC False)\<rparr>) =
     Inr (sample_file 6 6 0xAA 0xCC False) \<and>
   NodeID (hdr (sample_file 6 6 0xAA 0xCC False)) = store_id (sample_store\<lparr>store_id := 9\<rparr>) \<and>
   map_of (dbs (sample_store\<lparr>store_id := 9\<rparr>)) ''db'' \<noteq> None \<and>
   acquireWriteLock (sample_env\<lparr>decodeHeader := Inr (sample_file 6 6 0xAA 0xCC False)\<rparr>) = None \<and>
   verify (sample_env\<lparr>decodeHeader := Inr (sample_file 6 6 0xAA 0xCC False)\<rparr>) = None \<and>
   discard (sample_env\<lparr>decodeHeader := Inr (sample_file 6 6 0xAA 0xCC False)\<rparr>) = None \<and>
   processLTXStreamFrame (sample_env\<lparr>decodeHeader := Inr (sample_file 6 6 0xAA 0xCC False)\<rparr>)
       (sample_store\<lparr>store_id := 9\<rparr>) ''db'' = (None, sample_store\<lparr>store_id := 9\<rparr>) \<and>
   map_of (dbs (sample_store\<lparr>store_id := 9\<rparr>)) ''db'' = Some sample_db"
proof -
  let ?env = "sample_env\<lparr>decodeHeader := Inr (sample_file 6 6 0xAA 0xCC False)\<rparr>"
  let ?s = "sample_store\<lparr>store_id := 9\<rparr>"
  have h1: "CreateDBIfNotExists (dbEnv ?env) ?s ''db'' = (Inr sample_db, ?s)"
    by (simp add: CreateDBIfNotExists_def sample_store_def)
  have h2: "decodeHeader ?env = Inr (sample_file 6 6 0xAA 0xCC False)"
    by simp
  have h3: "NodeID (hdr (sample_file 6 6 0xAA 0xCC False)) = store_id ?s"
    by (simp add: sample_file_def)
  have h4: "acquireWriteLock ?env = None \<and> verify ?env = None \<and> discard ?env = None"
    by (simp add: sample_env_def)
  have h5: "map_of (dbs ?s) ''db'' = Some sample_db"
    by (simp add: sample_store_def)
  from self_origin_frame_verified_not_applied [OF h1 h2 h3] h4 h5
  have "processLTXStreamFrame ?env ?s ''db'' = (None, ?s)"
    by (simp add: prod_eq_iff)
  with h1 h2 h3 h4 h5 show ?thesis
    by simp
qed

text \<open>C2, as stated, fails: a frame from the store's own node id is processed without
  error and the database still holds its remote HALT lock afterwards.\<close>

theorem self_origin_frame_keeps_halt_lock:
  "NodeID (hdr (sample_file 1 10 0 0xBEEF True)) = store_id (sample_store\<lparr>store_id := 9\<rparr>) \<and>
   map_option remoteHaltLock (map_of (dbs (sample_store\<lparr>store_id := 9\<rparr>)) ''db'') =
     Some (Some \<lparr>ID = 3, ExpiresAt = 100\<rparr>) \<and>
   fst (processLTXStreamFrame sample_env (sample_store\<lparr>store_id := 9\<rparr>) ''db'') = None \<and>
   map_option remoteHaltLock
     (map_of (dbs (snd (processLTXStreamFrame sample_env (sample_store\<lparr>store_id := 9\<rparr>) ''db''))) ''db'') =
     Some (Some \<lparr>ID = 3, ExpiresAt = 100\<rparr>)"
  by code_simp

text \<open>C2, amended. For a database that holds a remote HALT lock, once the header is decoded
  and the write lock acquired: a frame whose node id differs from the store's leaves the
  database without the lock, provided \<^verbatim>\<open>UnsetRemoteHaltLock\<close> succeeds; a frame with the
  store's own node id leaves the database, and its lock, as it was.\<close>

theorem foreign_frame_clears_halt_lock:
  assumes "map_of (dbs s) nm = Some db"
    and "remoteHaltLock db = Some l"
    and "decodeHeader env = Inr f"
    and "acquireWriteLock env = None"
  shows "(NodeID (hdr f) \<noteq> store_id s \<and> unsetHalt env = None \<longrightarrow>
            (\<exists>db1. map_of (dbs (snd (processLTXStreamFrame env s nm))) nm = Some db1 \<and>
                   remoteHaltLock db1 = None)) \<and>
         (NodeID (hdr f) = store_id s \<longrightarrow>
            map_of (dbs (snd (processLTXStreamFrame env s nm))) nm = Some db)"
proof -
  have c: "CreateDBIfNotExists (dbEnv env) s nm = (Inr db, s)"
    using assms(1) by (simp add: CreateDBIfNotExists_def)
  have "\<exists>db1. map_of (dbs (snd (processLTXStreamFrame env s nm))) nm = Some db1 \<and>
              remoteHaltLock db1 = None"
    if "NodeID (hdr f) \<noteq> store_id s" and "unsetHalt env = None"
  proof (cases "\<not> IsSnapshot (hdr f) \<and> pos db \<noteq> expectedPos (hdr f)")
    case True
    with process_foreign [OF c assms(3,4) that(1)] that(2) show ?thesis
      by (simp add: update_conv')
  next
    case False
    obtain err db2 where i: "installLTX env (db\<lparr>remoteHaltLock := None\<rparr>) f = (err, db2)"
      by (cases "installLTX env (db\<lparr>remoteHaltLock := None\<rparr>) f")
    from installLTX_keeps [OF i] have "remoteHaltLock db2 = None"
      by simp
    with process_foreign [OF c assms(3,4) that(1)] that(2) False i show ?thesis
      by (simp add: update_conv')
  qed
  moreover have "map_of (dbs (snd (processLTXStreamFrame env s nm))) nm = Some db"
    if "NodeID (hdr f) = store_id s"
    using process_self_origin [OF c assms(3,4) that] assms(1)
    by (simp split: option.splits)
  ultimately show ?thesis
    by blast
qed

theorem foreign_frame_clears_halt_lock_witness:
  "map_of (dbs sample_store) ''db'' = Some sample_db \<and>
   remoteHaltLock sample_db = Some \<lparr>ID = 3, ExpiresAt = 100\<rparr> \<and>
   decodeHeader sample_env = Inr (sample_file 1 10 0 0xBEEF True) \<and>
   acquireWriteLock sample_env = None \<and>
   NodeID (hdr (sample_file 1 10 0 0xBEEF True)) \<noteq> store_id sample_store \<and>
   unsetHalt sample_env = None \<and>
   (\<exists>db1. map_of (dbs (snd (processLTXStreamFrame sample_env sample_store ''db''))) ''db'' = Some db1 \<and>
          remoteHaltLock db1 = None) \<and>
   NodeID (hdr (sample_file 1 10 0 0xBEEF True)) = store_id (sample_store\<lparr>store_id := 9\<rparr>) \<and>
   map_of (dbs (snd (processLTXStreamFrame sample_env (sample_store\<lparr>store_id := 9\<rparr>) ''db''))) ''db''
     = Some sample_db"
proof -
  have h1: "map_of (dbs sample_store) ''db'' = Some sample_db"
    and h1': "map_of (dbs (sample_store\<lparr>store_id := 9\<rparr>)) ''db'' = Some sample_db"
    by (simp_all add: sample_store_def)
  have h2: "remoteHaltLock sample_db = Some \<lparr>ID = 3, ExpiresAt = 100\<rparr>"
    by (simp add: sample_db_def)
  have h3: "decodeHeader sample_env = Inr (sample_file 1 10 0 0xBEEF True)"
    and h4: "acquireWriteLock sample_env = None" and h5: "unsetHalt sample_env = None"
    by (simp_all add: sample_env_def)
  have h6: "NodeID (hdr (sample_file 1 10 0 0xBEEF True)) \<noteq> store_id sample_store"
    and h7: "NodeID (hdr (sample_file 1 10 0 0xBEEF True)) = store_id (sample_store\<lparr>store_id := 9\<rparr>)"
    by (simp_all add: sample_file_def sample_store_def)
  from foreign_frame_clears_halt_lock [OF h1 h2 h3 h4] foreign_frame_clears_halt_lock [OF h1' h2 h3 h4]
    h1 h2 h3 h4 h5 h6 h7
  show ?thesis
    by simp
qed

text \<open>C3, as stated, fails: a frame from the store's own node id that is no snapshot and
  matches the position in neither field is processed without any error.\<close>

theorem self_origin_frame_skips_position_check:
  "\<not> IsSnapshot (hdr (sample_file 9 9 0x11 0x22 False)) \<and>
   NodeID (hdr (sample_file 9 9 0x11 0x22 False)) = store_id (sample_store\<lparr>store_id := 9\<rparr>) \<and>
   map_option pos (map_of (dbs (sample_store\<lparr>store_id := 9\<rparr>)) ''db'') =
     Some \<lparr>TXID = 5, PostApplyChecksum = 0xAA\<rparr> \<and>
   MinTXID (hdr (sample_file 9 9 0x11 0x22 False)) \<noteq> 5 + 1 \<and>
   PreApplyChecksum (hdr (sample_file 9 9 0x11 0x22 False)) \<noteq> 0xAA \<and>
   fst (processLTXStreamFrame (sample_env\<lparr>decodeHeader := Inr (sample_file 9 9 0x11 0x22 False)\<rparr>)
          (sample_store\<lparr>store_id := 9\<rparr>) ''db'') = None"
  by code_simp

text \<open>C3, amended. For a frame that is no snapshot and whose node id differs from the
  store's, once the database is there, the header decoded, the write lock acquired and a
  remote HALT lock unset: if \<open>MinTXID = pos.TXID + 1\<close> (on 64-bit words) and
  \<open>PreApplyChecksum = pos.PostApplyChecksum\<close> the file is written and applied; otherwise
  the function returns the position-mismatch error and the database keeps its position
  and its LTX directory, in which no temporary file was created.  The function returns
  nil only if the position matched, and then the position is that of the file; when it
  returns an error the position is unchanged.\<close>

theorem foreign_frame_position_check:
  assumes "CreateDBIfNotExists (dbEnv env) s nm = (Inr db, s1)"
    and "decodeHeader env = Inr f"
    and "acquireWriteLock env = None"
    and "NodeID (hdr f) \<noteq> store_id s"
    and "remoteHaltLock db \<noteq> None \<longrightarrow> unsetHalt env = None"
    and "\<not> IsSnapshot (hdr f)"
  shows "(MinTXID (hdr f) = TXID (pos db) + 1 \<and> PreApplyChecksum (hdr f) = PostApplyChecksum (pos db) \<longrightarrow>
            processLTXStreamFrame env s nm =
              (case installLTX env (db\<lparr>remoteHaltLock := None\<rparr>) f of
                 (err, db2) \<Rightarrow> (err, s1\<lparr>dbs := AList.update nm db2 (dbs s1)\<rparr>))) \<and>
         (\<not> (MinTXID (hdr f) = TXID (pos db) + 1 \<and> PreApplyChecksum (hdr f) = PostApplyChecksum (pos db)) \<longrightarrow>
            fst (processLTXStreamFrame env s nm) =
              Some (PositionMismatch (name db) (pos db) (expectedPos (hdr f))) \<and>
            (\<exists>db1. map_of (dbs (snd (processLTXStreamFrame env s nm))) nm = Some db1 \<and>
                   pos db1 = pos db \<and> ltxDir db1 = ltxDir db)) \<and>
         (\<exists>db1. map_of (dbs (snd (processLTXStreamFrame env s nm))) nm = Some db1 \<and>
                (if fst (processLTXStreamFrame env s nm) = None
                 then MinTXID (hdr f) = TXID (pos db) + 1 \<and>
                      PreApplyChecksum (hdr f) = PostApplyChecksum (pos db) \<and>
                      pos db1 = \<lparr>TXID = MaxTXID (hdr f), PostApplyChecksum = postApplyChecksum f\<rparr>
                 else pos db1 = pos db))"
proof (cases "pos db = expectedPos (hdr f)")
  case True
  then have match: "MinTXID (hdr f) = TXID (pos db) + 1 \<and>
      PreApplyChecksum (hdr f) = PostApplyChecksum (pos db)"
    using expectedPos_iff [of db "hdr f"] by blast
  obtain err db2 where i: "installLTX env (db\<lparr>remoteHaltLock := None\<rparr>) f = (err, db2)"
    by (cases "installLTX env (db\<lparr>remoteHaltLock := None\<rparr>) f")
  have p: "processLTXStreamFrame env s nm = (err, s1\<lparr>dbs := AList.update nm db2 (dbs s1)\<rparr>)"
    using process_foreign [OF assms(1-5)] True i by simp
  have "pos db2 = (if err = None
           then \<lparr>TXID = MaxTXID (hdr f), PostApplyChecksum = postApplyChecksum f\<rparr> else pos db)"
    using installLTX_ok(1) [of env "db\<lparr>remoteHaltLock := None\<rparr>" f db2]
      installLTX_err_pos [of env "db\<lparr>remoteHaltLock := None\<rparr>" f _ db2] i
    by (cases err) auto
  with match p i show ?thesis
    by (simp add: update_conv')
next
  case False
  then have "\<not> (MinTXID (hdr f) = TXID (pos db) + 1 \<and>
      PreApplyChecksum (hdr f) = PostApplyChecksum (pos db))"
    using expectedPos_iff [of db "hdr f"] by blast
  moreover have "processLTXStreamFrame env s nm =
      (Some (PositionMismatch (name db) (pos db) (expectedPos (hdr f))),
       s1\<lparr>dbs := AList.update nm (db\<lparr>remoteHaltLock := None\<rparr>) (dbs s1)\<rparr>)"
    using process_foreign [OF assms(1-5)] assms(6) False by simp
  ultimately show ?thesis
    by (auto simp: update_conv')
qed

theorem foreign_frame_position_check_witness:
  "CreateDBIfNotExists (dbEnv sample_env) sample_store ''db'' = (Inr sample_db, sample_store) \<and>
   acquireWriteLock sample_env = None \<and> unsetHalt sample_env = None \<and>
   NodeID (hdr (sample_file 6 6 0xAA 0xCC False)) \<noteq> store_id sample_store \<and>
   \<not> IsSnapshot (hdr (sample_file 6 6 0xAA 0xCC False)) \<and>
   MinTXID (hdr (sample_file 6 6 0xAA 0xCC False)) = TXID (pos sample_db) + 1 \<and>
   PreApplyChecksum (hdr (sample_file 6 6 0xAA 0xCC False)) = PostApplyChecksum (pos sample_db) \<and>
   fst (processLTXStreamFrame (sample_env\<lparr>decodeHeader := Inr (sample_file 6 6 0xAA 0xCC False)\<rparr>)
          sample_store ''db'') = None \<and>
   (\<exists>db1. map_of (dbs (snd (processLTXStreamFrame
              (sample_env\<lparr>decodeHeader := Inr (sample_file 6 6 0xAA 0xCC False)\<rparr>) sample_store ''db''))) ''db''
            = Some db1 \<and>
          pos db1 = \<lparr>TXID = 6, PostApplyChecksum = 0xCC\<rparr>) \<and>
   NodeID (hdr (sample_file 9 9 0x11 0x22 False)) \<noteq> store_id sample_store \<and>
   \<not> IsSnapshot (hdr (sample_file 9 9 0x11 0x22 False)) \<and>
   MinTXID (hdr (sample_file 9 9 0x11 0x22 False)) \<noteq> TXID (pos sample_db) + 1 \<and>
   fst (processLTXStreamFrame (sample_env\<lparr>decodeHeader := Inr (sample_file 9 9 0x11 0x22 False)\<rparr>)
          sample_store ''db'') =
     Some (PositionMismatch ''db'' \<lparr>TXID = 5, PostApplyChecksum = 0xAA\<rparr>
             \<lparr>TXID = 8, PostApplyChecksum = 0x11\<rparr>) \<and>
   (\<exists>db1. map_of (dbs (snd (processLTXStreamFrame
              (sample_env\<lparr>decodeHeader := Inr (sample_file 9 9 0x11 0x22 False)\<rparr>) sample_store ''db''))) ''db''
            = Some db1 \<and>
          pos db1 = pos sample_db \<and> ltxDir db1 = ltxDir sample_db)"
proof -
  let ?m = "sample_env\<lparr>decodeHeader := Inr (sample_file 6 6 0xAA 0xCC False)\<rparr>"
  let ?x = "sample_env\<lparr>decodeHeader := Inr (sample_file 9 9 0x11 0x22 False)\<rparr>"
  have c: "CreateDBIfNotExists (dbEnv sample_env) sample_store ''db'' = (Inr sample_db, sample_store)"
    by (simp add: CreateDBIfNotExists_def sample_store_def)
  have e: "acquireWriteLock sample_env = None" "unsetHalt sample_env = None"
    by (simp_all add: sample_env_def)
  have m: "NodeID (hdr (sample_file 6 6 0xAA 0xCC False)) \<noteq> store_id sample_store"
    "\<not> IsSnapshot (hdr (sample_file 6 6 0xAA 0xCC False))"
    "MinTXID (hdr (sample_file 6 6 0xAA 0xCC False)) = TXID (pos sample_db) + 1"
    "PreApplyChecksum (hdr (sample_file 6 6 0xAA 0xCC False)) = PostApplyChecksum (pos sample_db)"
    by (simp_all add: sample_file_def sample_store_def sample_db_def NewStore_def)
  have x: "NodeID (hdr (sample_file 9 9 0x11 0x22 False)) \<noteq> store_id sample_store"
    "\<not> IsSnapshot (hdr (sample_file 9 9 0x11 0x22 False))"
    "MinTXID (hdr (sample_file 9 9 0x11 0x22 False)) \<noteq> TXID (pos sample_db) + 1"
    by (simp_all add: sample_file_def sample_store_def sample_db_def NewStore_def)
  have ok: "fst (processLTXStreamFrame ?m sample_store ''db'') = None"
    by code_simp
  have v: "MaxTXID (hdr (sample_file 6 6 0xAA 0xCC False)) = 6"
    "postApplyChecksum (sample_file 6 6 0xAA 0xCC False) = 0xCC"
    "name sample_db = ''db''" "pos sample_db = \<lparr>TXID = 5, PostApplyChecksum = 0xAA\<rparr>"
    "expectedPos (hdr (sample_file 9 9 0x11 0x22 False)) = \<lparr>TXID = 8, PostApplyChecksum = 0x11\<rparr>"
    by (simp_all add: sample_file_def sample_db_def expectedPos_def)
  have "(\<exists>db1. map_of (dbs (snd (processLTXStreamFrame ?m sample_store ''db''))) ''db'' = Some db1 \<and>
          pos db1 = \<lparr>TXID = 6, PostApplyChecksum = 0xCC\<rparr>)"
    using foreign_frame_position_check [where env = ?m and s = sample_store and nm = "''db''"
        and db = sample_db and ?s1.0 = sample_store and f = "sample_file 6 6 0xAA 0xCC False",
        THEN conjunct2, THEN conjunct2]
      c e m ok v
    by simp
  moreover have "fst (processLTXStreamFrame ?x sample_store ''db'') =
       Some (PositionMismatch ''db'' \<lparr>TXID = 5, PostApplyChecksum = 0xAA\<rparr>
               \<lparr>TXID = 8, PostApplyChecksum = 0x11\<rparr>) \<and>
     (\<exists>db1. map_of (dbs (snd (processLTXStreamFrame ?x sample_store ''db''))) ''db'' = Some db1 \<and>
          pos db1 = pos sample_db \<and> ltxDir db1 = ltxDir sample_db)"
    using foreign_frame_position_check [where env = ?x and s = sample_store and nm = "''db''"
        and db = sample_db and ?s1.0 = sample_store and f = "sample_file 9 9 0x11 0x22 False",
        THEN conjunct2, THEN conjunct1]
      c e x v
    by simp
  ultimately show ?thesis
    using c e m x ok by simp
qed

text \<open>C4, as stated, fails: a snapshot frame from the store's own node id is processed
  without error, and the database keeps its three LTX files and its position.\<close>

theorem self_origin_snapshot_not_applied:
  "IsSnapshot (hdr (sample_file 1 10 0 0xBEEF True)) \<and>
   decodeHeader sample_env = Inr (sample_file 1 10 0 0xBEEF True) \<and>
   map_of (dbs (sample_store\<lparr>store_id := 9\<rparr>)) ''db'' = Some sample_db \<and>
   processLTXStreamFrame sample_env (sample_store\<lparr>store_id := 9\<rparr>) ''db'' =
     (None, sample_store\<lparr>store_id := 9\<rparr>) \<and>
   pos sample_db = \<lparr>TXID = 5, PostApplyChecksum = 0xAA\<rparr> \<and>
   map fst (ltxDir sample_db) =
     [''0000000000000001-0000000000000001.ltx'', ''0000000000000002-0000000000000003.ltx'',
      ''0000000000000004-0000000000000005.ltx'']"
  by code_simp

text \<open>C4, amended. For a snapshot frame whose node id differs from the store's: once the
  write lock is acquired and a remote HALT lock unset, the file is written and applied
  whatever the position of the database is, without a position check; and when the
  function returns nil, the position is the snapshot's \<open>MaxTXID\<close> and post-apply checksum,
  the snapshot's file is in the LTX directory, and every other entry left there is a
  subdirectory.\<close>

theorem foreign_snapshot_replaces_files_and_position:
  assumes "CreateDBIfNotExists (dbEnv env) s nm = (Inr db, s1)"
    and "decodeHeader env = Inr f"
    and "NodeID (hdr f) \<noteq> store_id s"
    and "IsSnapshot (hdr f)"
  shows "(acquireWriteLock env = None \<and> (remoteHaltLock db \<noteq> None \<longrightarrow> unsetHalt env = None) \<longrightarrow>
            processLTXStreamFrame env s nm =
              (case installLTX env (db\<lparr>remoteHaltLock := None\<rparr>) f of
                 (err, db2) \<Rightarrow> (err, s1\<lparr>dbs := AList.update nm db2 (dbs s1)\<rparr>))) \<and>
         (fst (processLTXStreamFrame env s nm) = None \<longrightarrow>
            (\<exists>db1. map_of (dbs (snd (processLTXStreamFrame env s nm))) nm = Some db1 \<and>
                   pos db1 = \<lparr>TXID = MaxTXID (hdr f), PostApplyChecksum = postApplyChecksum f\<rparr> \<and>
                   (LTXPath (MinTXID (hdr f)) (MaxTXID (hdr f)), File (Some f)) \<in> set (ltxDir db1) \<and>
                   (\<forall>(n, k) \<in> set (ltxDir db1).
                      k = Dir \<or> (n, k) = (LTXPath (MinTXID (hdr f)) (MaxTXID (hdr f)), File (Some f)))))"
proof (cases "acquireWriteLock env = None \<and> (remoteHaltLock db \<noteq> None \<longrightarrow> unsetHalt env = None)")
  case True
  obtain err db2 where i: "installLTX env (db\<lparr>remoteHaltLock := None\<rparr>) f = (err, db2)"
    by (cases "installLTX env (db\<lparr>remoteHaltLock := None\<rparr>) f")
  have p: "processLTXStreamFrame env s nm = (err, s1\<lparr>dbs := AList.update nm db2 (dbs s1)\<rparr>)"
    using process_foreign [OF assms(1,2) _ assms(3)] True assms(4) i by simp
  show ?thesis
  proof (cases err)
    case None
    with i installLTX_ok [of env "db\<lparr>remoteHaltLock := None\<rparr>" f db2] assms(4) p True
    show ?thesis
      by (simp add: update_conv')
  next
    case (Some e)
    with p i True show ?thesis by simp
  qed
next
  case False
  have "fst (processLTXStreamFrame env s nm) \<noteq> None"
  proof (cases "acquireWriteLock env")
    case (Some e)
    with assms(1,2) show ?thesis
      by (simp add: processLTXStreamFrame_def)
  next
    case None
    with False obtain l e where "remoteHaltLock db = Some l" "unsetHalt env = Some e"
      by auto
    with None assms(1-3) CreateDBIfNotExists_result(1) [OF assms(1)] show ?thesis
      by (simp add: processLTXStreamFrame_def RemoteHaltLock_def UnsetRemoteHaltLock_def)
  qed
  with False show ?thesis by blast
qed

theorem foreign_snapshot_replaces_files_and_position_witness:
  "CreateDBIfNotExists (dbEnv sample_env) sample_store ''db'' = (Inr sample_db, sample_store) \<and>
   decodeHeader sample_env = Inr (sample_file 1 10 0 0xBEEF True) \<and>
   NodeID (hdr (sample_file 1 10 0 0xBEEF True)) \<noteq> store_id sample_store \<and>
   IsSnapshot (hdr (sample_file 1 10 0 0xBEEF True)) \<and>
   acquireWriteLock sample_env = None \<and> unsetHalt sample_env = None \<and>
   pos sample_db = \<lparr>TXID = 5, PostApplyChecksum = 0xAA\<rparr> \<and>
   fst (processLTXStreamFrame sample_env sample_store ''db'') = None \<and>
   (\<exists>db1. map_of (dbs (snd (processLTXStreamFrame sample_env sample_store ''db''))) ''db'' = Some db1 \<and>
          pos db1 = \<lparr>TXID = 10, PostApplyChecksum = 0xBEEF\<rparr> \<and>
          ltxDir db1 = [(''0000000000000001-000000000000000a.ltx'',
                         File (Some (sample_file 1 10 0 0xBEEF True)))])"
proof -
  have c: "CreateDBIfNotExists (dbEnv sample_env) sample_store ''db'' = (Inr sample_db, sample_store)"
    by (simp add: CreateDBIfNotExists_def sample_store_def)
  have e: "decodeHeader sample_env = Inr (sample_file 1 10 0 0xBEEF True)"
    "acquireWriteLock sample_env = None" "unsetHalt sample_env = None"
    by (simp_all add: sample_env_def)
  have n: "NodeID (hdr (sample_file 1 10 0 0xBEEF True)) \<noteq> store_id sample_store"
    "IsSnapshot (hdr (sample_file 1 10 0 0xBEEF True))"
    "pos sample_db = \<lparr>TXID = 5, PostApplyChecksum = 0xAA\<rparr>"
    by (simp_all add: sample_file_def sample_store_def sample_db_def)
  have ok: "fst (processLTXStreamFrame sample_env sample_store ''db'') = None"
    by code_simp
  have d: "map_option ltxDir
      (map_of (dbs (snd (processLTXStreamFrame sample_env sample_store ''db''))) ''db'') =
      Some [(''0000000000000001-000000000000000a.ltx'', File (Some (sample_file 1 10 0 0xBEEF True)))]"
    by code_simp
  have v: "MaxTXID (hdr (sample_file 1 10 0 0xBEEF True)) = 10"
    "postApplyChecksum (sample_file 1 10 0 0xBEEF True) = 0xBEEF"
    by (simp_all add: sample_file_def)
  from foreign_snapshot_replaces_files_and_position [OF c e(1) n(1,2)] ok d v
  have "\<exists>db1. map_of (dbs (snd (processLTXStreamFrame sample_env sample_store ''db''))) ''db'' = Some db1 \<and>
          pos db1 = \<lparr>TXID = 10, PostApplyChecksum = 0xBEEF\<rparr> \<and>
          ltxDir db1 = [(''0000000000000001-000000000000000a.ltx'',
                         File (Some (sample_file 1 10 0 0xBEEF True)))]"
    by auto
  with c e n ok show ?thesis
    by simp
qed

end
